theory Spec2Isabelle
  imports Main "HOL-Library.Sublist"
begin

section \<open>JavaScript strings and arrays\<close>

text \<open>
  A JavaScript string is a list of code units; the model keeps the code units below 256.
  The functions of this section are the built-in operations that
  \<^verbatim>\<open>apps/studio/electron/main/assets/styles.ts\<close> calls on strings and arrays.
\<close>

text \<open>Truthiness of a string: only the empty string is falsy.\<close>

definition truthy :: "string \<Rightarrow> bool" where
  "truthy s = (s \<noteq> [])"

text \<open>Truthiness of a string that may be \<^verbatim>\<open>undefined\<close>.\<close>

fun truthyOpt :: "string option \<Rightarrow> bool" where
  "truthyOpt None = False"
| "truthyOpt (Some s) = truthy s"

text \<open>Interpolation in a template literal: \<^verbatim>\<open>undefined\<close> prints as the word.\<close>

fun interpolate :: "string option \<Rightarrow> string" where
  "interpolate None = ''undefined''"
| "interpolate (Some s) = s"

text \<open>\<^verbatim>\<open>s.split(sep)\<close> for a separator of one code unit: never the empty array.\<close>

fun String_split :: "char \<Rightarrow> string \<Rightarrow> string list" where
  "String_split sep [] = [[]]"
| "String_split sep (c # cs) =
     (if c = sep then [] # String_split sep cs
      else (case String_split sep cs of
              [] \<Rightarrow> [[c]]
            | x # xs \<Rightarrow> (c # x) # xs))"

fun Array_join :: "string \<Rightarrow> string list \<Rightarrow> string" where
  "Array_join sep [] = []"
| "Array_join sep [x] = x"
| "Array_join sep (x # y # ys) = x @ sep @ Array_join sep (y # ys)"

text \<open>\<^verbatim>\<open>arr.findIndex(p)\<close>; \<^verbatim>\<open>arr.find(p)\<close> is the element at that index.\<close>

fun findIndex :: "('a \<Rightarrow> bool) \<Rightarrow> 'a list \<Rightarrow> nat option" where
  "findIndex P [] = None"
| "findIndex P (x # xs) = (if P x then Some 0 else map_option Suc (findIndex P xs))"

text \<open>\<^verbatim>\<open>arr.splice(i, 1)\<close>.\<close>

definition splice1 :: "nat \<Rightarrow> 'a list \<Rightarrow> 'a list" where
  "splice1 i xs = take i xs @ drop (Suc i) xs"

text \<open>White space and line terminators below 256, as \<^verbatim>\<open>trim\<close> strips them.\<close>

definition isWhiteSpace :: "char \<Rightarrow> bool" where
  "isWhiteSpace c = (c \<in> {CHR 0x09, CHR 0x0A, CHR 0x0B, CHR 0x0C, CHR 0x0D, CHR 0x20, CHR 0xA0})"

definition String_trim :: "string \<Rightarrow> string" where
  "String_trim s = rev (dropWhile isWhiteSpace (rev (dropWhile isWhiteSpace s)))"

definition startsWith :: "string \<Rightarrow> string \<Rightarrow> bool" where
  "startsWith s p = prefix p s"

definition endsWith :: "string \<Rightarrow> string \<Rightarrow> bool" where
  "endsWith s p = suffix p s"

text \<open>
  The first occurrence of \<open>pat\<close> in a string: the text before it and the text after
  it. The empty pattern occurs at position 0.
\<close>

fun splitAtFirst :: "string \<Rightarrow> string \<Rightarrow> (string \<times> string) option" where
  "splitAtFirst pat [] = (if pat = [] then Some ([], []) else None)"
| "splitAtFirst pat (c # cs) =
     (if prefix pat (c # cs) then Some ([], drop (length pat) (c # cs))
      else map_option (\<lambda>(b, a). (c # b, a)) (splitAtFirst pat cs))"

text \<open>
  The replacement text of \<^verbatim>\<open>String.prototype.replace\<close> (GetSubstitution) for a match
  with no capture group: \<^verbatim>\<open>$$\<close> is a dollar sign, \<^verbatim>\<open>$&\<close> the matched text,
  dollar-backtick the text before the match, dollar-apostrophe the text after it; every
  other code unit stands for itself.
\<close>

fun getSubstitution :: "string \<Rightarrow> string \<Rightarrow> string \<Rightarrow> string \<Rightarrow> string" where
  "getSubstitution matched pre post [] = []"
| "getSubstitution matched pre post [c] = [c]"
| "getSubstitution matched pre post (c # d # r) =
     (if c = CHR ''$'' \<and> d = CHR ''$'' then CHR ''$'' # getSubstitution matched pre post r
      else if c = CHR ''$'' \<and> d = CHR ''&'' then matched @ getSubstitution matched pre post r
      else if c = CHR ''$'' \<and> d = CHR 0x60 then pre @ getSubstitution matched pre post r
      else if c = CHR ''$'' \<and> d = CHR 0x27 then post @ getSubstitution matched pre post r
      else c # getSubstitution matched pre post (d # r))"

text \<open>
  \<^verbatim>\<open>s.replace(searchValue, replaceValue)\<close> with a string pattern: only the first
  occurrence is replaced.
\<close>

definition String_replace :: "string \<Rightarrow> string \<Rightarrow> string \<Rightarrow> string" where
  "String_replace s searchValue replaceValue =
     (case splitAtFirst searchValue s of
        None \<Rightarrow> s
      | Some (pre, post) \<Rightarrow> pre @ getSubstitution searchValue pre post replaceValue @ post)"

text \<open>
  Regular expressions. The source builds two of them from names it is given:
  \<^verbatim>\<open>new RegExp('--' + oldVarName, 'g')\<close> and \<^verbatim>\<open>new RegExp('^--' + originalName + '-')\<close>.
  When the interpolated text holds no syntax character of the pattern language the
  pattern matches that text literally, and the model computes the result. For every other
  pattern the result (or the SyntaxError of the constructor) is the environment's.
\<close>

definition isSyntaxCharacter :: "char \<Rightarrow> bool" where
  "isSyntaxCharacter c =
     (c \<in> {CHR 0x5E, CHR 0x24, CHR 0x5C, CHR 0x2E, CHR 0x2A, CHR 0x2B, CHR 0x3F,
            CHR 0x28, CHR 0x29, CHR 0x5B, CHR 0x5D, CHR 0x7B, CHR 0x7D, CHR 0x7C})"

definition plainPattern :: "string \<Rightarrow> bool" where
  "plainPattern s = (s \<noteq> [] \<and> list_all (\<lambda>c. \<not> isSyntaxCharacter c) s)"

text \<open>
  Global replacement of a literal, non-empty pattern: the matches are found from left to
  right and do not overlap; \<open>seen\<close> is the text already passed, which a
  replacement pattern may refer to.
\<close>

fun replaceAllPlain :: "string \<Rightarrow> string \<Rightarrow> string \<Rightarrow> string \<Rightarrow> string" where
  "replaceAllPlain pat rep seen [] = []"
| "replaceAllPlain pat rep seen (c # cs) =
     (if pat \<noteq> [] \<and> prefix pat (c # cs)
      then getSubstitution pat seen (drop (length pat - 1) cs) rep
             @ replaceAllPlain pat rep (seen @ pat) (drop (length pat - 1) cs)
      else c # replaceAllPlain pat rep (seen @ [c]) cs)"

section \<open>Data of the colour configuration\<close>

text \<open>
  The nodes of the syntax tree that the code inspects: their \<^verbatim>\<open>type\<close> is the
  constructor. \<open>OtherNode\<close> stands for every other node type (a spread element, a
  method, a numeric key, a call, ...).
\<close>

datatype node =
    Identifier string
  | StringLiteral string
  | ObjectExpression "node list"
  | ObjectProperty node node
  | OtherNode string

text \<open>
  \<^verbatim>\<open>getNodeClasses\<close> and \<^verbatim>\<open>getOidFromJsxElement\<close> are not part of the sources at
  hand; a JSX element is represented by what they return for it.
\<close>

datatype ClassParsingResult = Classes "string list" | ClassError string

record JSXElement =
  nodeClasses :: ClassParsingResult
  oid :: "string option"

text \<open>
  A parsed file, as far as the traversals of the source look at it:
  \<^item> \<open>colorsValues\<close>: the \<^verbatim>\<open>value\<close> nodes of the object properties for which
    \<^verbatim>\<open>isColorsObjectProperty(path)\<close> holds, in traversal order (the helper is not
    part of the sources at hand; the colours objects are taken not to lie inside each
    other);
  \<^item> \<open>objectExpressions\<close>: every object expression of the file, in traversal order;
  \<^item> \<open>jsxElements\<close>: every JSX element of the file, in traversal order.
  Everything else in the file is left alone by the code.
\<close>

record File =
  colorsValues :: "node list"
  objectExpressions :: "node list"
  jsxElements :: "JSXElement list"

record GeneratorOptions =
  retainLines :: bool
  compact :: "bool option"

text \<open>
  A stylesheet as the CSS toolkit parses it. A rule holds declarations and comments; an
  at-rule holds nodes; \<open>OtherCss\<close> is any other node (a comment or a declaration
  outside a rule).
\<close>

datatype rule_child = Declaration string string | Comment string

datatype css_node = Rule string "rule_child list" | AtRule string "css_node list" | OtherCss string

datatype jsvalue = JString string | JObject "(string \<times> jsvalue) list"

type_synonym fs = "string \<rightharpoonup> string"

record ColorUpdate =
  configPath :: string
  cssPath :: string
  configContent :: string
  cssContent :: string

record UpdateResult =
  success :: bool
  error :: "string option"

record ConfigUpdateResult =
  keyUpdated :: bool
  valueUpdated :: bool
  outputCode :: string

datatype Theme = Dark | Light

record CssVariables =
  root :: "string \<rightharpoonup> string"
  dark :: "string \<rightharpoonup> string"

record ScanResult =
  scanConfigPath :: string
  scanConfigContent :: jsvalue
  scanCssPath :: string
  scanCssContent :: CssVariables

text \<open>
  The collaborators of \<^verbatim>\<open>styles.ts\<close>: the parser and printer of syntax trees, the CSS
  toolkit, the file lookup and the helpers of the repository whose code is not at hand.
  They are parameters of the model. A function that can throw returns a sum: \<open>Inl\<close>
  carries the message of the error thrown.
\<close>

record env =
  toCamelCase :: "string \<Rightarrow> string"
  parse :: "string \<Rightarrow> string + File"
  parseTypescript :: "string \<Rightarrow> string + File"
  generate :: "File \<Rightarrow> GeneratorOptions \<Rightarrow> string \<Rightarrow> string"
  transformAst :: "File \<Rightarrow> (string \<times> string) list \<Rightarrow> File"
  extractObject :: "node \<Rightarrow> string + jsvalue"
  postcssParse :: "string \<Rightarrow> string + css_node list"
  postcssStringify :: "css_node list \<Rightarrow> string"
  regExpTest :: "string \<Rightarrow> string \<Rightarrow> string + bool"
  regExpReplaceAll :: "string \<Rightarrow> string \<Rightarrow> string \<Rightarrow> string + string"
  parseHslValue :: "string \<Rightarrow> string + string option"
  getConfigPath :: "fs \<Rightarrow> string \<Rightarrow> string + (string option \<times> string option)"
  initializeTailwindColorContent :: "fs \<Rightarrow> string \<Rightarrow> string + ColorUpdate option"
  findSourceFiles :: "fs \<Rightarrow> string \<Rightarrow> string + string list"
  readFile :: "fs \<Rightarrow> string \<Rightarrow> string + string option"
  dirname :: "string \<Rightarrow> string"

text \<open>
  An asynchronous function is modelled by how its promise settles: \<open>Inr\<close> the value it
  is fulfilled with, \<open>Inl\<close> the message it is rejected with, together with the file
  system it leaves. \<open>None\<close> is a call that never settles.
\<close>

type_synonym 'a promise = "(fs \<times> (string + 'a)) option"

text \<open>
  Writing a file replaces its content; a write that fails in the file system is outside
  the model.
\<close>

definition writeFileSync :: "fs \<Rightarrow> string \<Rightarrow> string \<Rightarrow> fs" where
  "writeFileSync files path content = files(path \<mapsto> content)"

text \<open>The first element that throws ends a \<^verbatim>\<open>forEach\<close>.\<close>

fun collect :: "('e + 'a) list \<Rightarrow> 'e + 'a list" where
  "collect [] = Inr []"
| "collect (Inl e # xs) = Inl e"
| "collect (Inr x # xs) = (case collect xs of Inl e \<Rightarrow> Inl e | Inr ys \<Rightarrow> Inr (x # ys))"

definition RegExp_test_anchored :: "env \<Rightarrow> string \<Rightarrow> string \<Rightarrow> string + bool" where
  "RegExp_test_anchored e lit s =
     (if plainPattern lit then Inr (prefix lit s) else regExpTest e (CHR 0x5E # lit) s)"

definition RegExp_replace_global :: "env \<Rightarrow> string \<Rightarrow> string \<Rightarrow> string \<Rightarrow> string + string" where
  "RegExp_replace_global e pat rep s =
     (if plainPattern pat then Inr (replaceAllPlain pat rep [] s) else regExpReplaceAll e pat rep s)"

section \<open>The configuration tree\<close>

text \<open>
  \<^verbatim>\<open>prop.type === 'ObjectProperty' && prop.key.type === 'Identifier' && prop.key.name === name\<close>
\<close>

fun isNamedProperty :: "string \<Rightarrow> node \<Rightarrow> bool" where
  "isNamedProperty name (ObjectProperty (Identifier n) v) = (n = name)"
| "isNamedProperty name _ = False"

text \<open>
  Modelled from the spec: \<^verbatim>\<open>isObjectExpression\<close> of \<^verbatim>\<open>./helpers\<close> is not part of
  the sources at hand; it is the test of the node type.
\<close>

fun isObjectExpression :: "node \<Rightarrow> bool" where
  "isObjectExpression (ObjectExpression ps) = True"
| "isObjectExpression _ = False"

definition varReference :: "string \<Rightarrow> string" where
  "varReference name = ''var(--'' @ name @ '')''"

text \<open>
  Modelled from the spec: \<^verbatim>\<open>addTailwindRootColor\<close> of \<^verbatim>\<open>./helpers\<close> is not part of
  the sources at hand. The spec: with no parent group, create "inserts a new top-level
  key under the colors object whose value is the string \<^verbatim>\<open>var(--<property-name>)\<close>".
\<close>

definition addTailwindRootColor :: "node list \<Rightarrow> string \<Rightarrow> string \<Rightarrow> node list" where
  "addTailwindRootColor props newName newCssVarName =
     props @ [ObjectProperty (Identifier newName) (StringLiteral (varReference newCssVarName))]"

text \<open>
  \<^verbatim>\<open>addTailwindNestedColor\<close>: \<open>props\<close> are the properties of \<^verbatim>\<open>colorObj\<close>; the
  result is what they are after the call.
\<close>

definition addTailwindNestedColor :: "env \<Rightarrow> node list \<Rightarrow> string \<Rightarrow> string \<Rightarrow> string \<Rightarrow> node list" where
  "addTailwindNestedColor e props parentName newName newCssVarName =
     (case findIndex (isNamedProperty parentName) props of
        None \<Rightarrow> props
      | Some i \<Rightarrow>
          (case props ! i of
             ObjectProperty k (ObjectExpression nested) \<Rightarrow>
               props[i := ObjectProperty k (ObjectExpression (nested @
                 [ObjectProperty (Identifier (toCamelCase e newName))
                    (StringLiteral (varReference newCssVarName))]))]
           | _ \<Rightarrow> props))"

text \<open>
  The traversal \<^verbatim>\<open>traverse(updateAst, {ObjectProperty(path) {if (isColorsObjectProperty(path)) ...}})\<close>:
  the visitor's body runs on the value of every colours property.
\<close>

definition traverseColors :: "(node \<Rightarrow> node) \<Rightarrow> File \<Rightarrow> File" where
  "traverseColors visit ast = ast\<lparr>colorsValues := map visit (colorsValues ast)\<rparr>"

text \<open>The body of the visitor in \<^verbatim>\<open>createTailwindColorVariable\<close>.\<close>

definition createColorVisitor :: "env \<Rightarrow> string option \<Rightarrow> string \<Rightarrow> string \<Rightarrow> node \<Rightarrow> node" where
  "createColorVisitor e parentName camelCaseName newCssVarName colorObj =
     (case colorObj of
        ObjectExpression props \<Rightarrow>
          (case parentName of
             None \<Rightarrow> ObjectExpression (addTailwindRootColor props camelCaseName newCssVarName)
           | Some p \<Rightarrow>
               if \<not> truthy p
               then ObjectExpression (addTailwindRootColor props camelCaseName newCssVarName)
               else ObjectExpression (addTailwindNestedColor e props p camelCaseName newCssVarName))
      | _ \<Rightarrow> colorObj)"

section \<open>The stylesheet\<close>

text \<open>
  \<^verbatim>\<open>root.walkRules(selector, callback)\<close>: every rule of the tree whose selector
  passes the test, at-rules included, in document order. The callback receives the
  selector and the children of the rule and returns the children it leaves; it may throw
  (\<open>Inl\<close>) or never return (\<open>None\<close>), which ends the walk.
\<close>

fun walkRules ::
  "(string \<Rightarrow> bool) \<Rightarrow> (string \<Rightarrow> rule_child list \<Rightarrow> (string + rule_child list) option)
     \<Rightarrow> css_node list \<Rightarrow> (string + css_node list) option" where
  "walkRules matches callback [] = Some (Inr [])"
| "walkRules matches callback (Rule selector children # nodes) =
     (case (if matches selector then callback selector children else Some (Inr children)) of
        None \<Rightarrow> None
      | Some (Inl err) \<Rightarrow> Some (Inl err)
      | Some (Inr children') \<Rightarrow>
          (case walkRules matches callback nodes of
             None \<Rightarrow> None
           | Some (Inl err) \<Rightarrow> Some (Inl err)
           | Some (Inr nodes') \<Rightarrow> Some (Inr (Rule selector children' # nodes'))))"
| "walkRules matches callback (AtRule name inner # nodes) =
     (case walkRules matches callback inner of
        None \<Rightarrow> None
      | Some (Inl err) \<Rightarrow> Some (Inl err)
      | Some (Inr inner') \<Rightarrow>
          (case walkRules matches callback nodes of
             None \<Rightarrow> None
           | Some (Inl err) \<Rightarrow> Some (Inl err)
           | Some (Inr nodes') \<Rightarrow> Some (Inr (AtRule name inner' # nodes'))))"
| "walkRules matches callback (OtherCss t # nodes) =
     (case walkRules matches callback nodes of
        None \<Rightarrow> None
      | Some (Inl err) \<Rightarrow> Some (Inl err)
      | Some (Inr nodes') \<Rightarrow> Some (Inr (OtherCss t # nodes')))"

text \<open>
  \<^verbatim>\<open>rule.walkDecls(callback)\<close> while the callback appends declarations to the rule
  and removes the one it visits. The toolkit's iteration rereads the length of the child
  list at every step, so a declaration appended during the walk is visited later in the
  same walk. The callback returns what stays in place of the declaration visited and what
  it appended to the rule. \<open>visited\<close> are the children already passed,
  \<open>pending\<close> those still to visit.
\<close>

partial_function (option) walkDecls ::
  "(string \<Rightarrow> string \<Rightarrow> string + (rule_child list \<times> rule_child list))
     \<Rightarrow> rule_child list \<Rightarrow> rule_child list \<Rightarrow> (string + rule_child list) option" where
  "walkDecls callback visited pending =
     (case pending of
        [] \<Rightarrow> Some (Inr visited)
      | child # others \<Rightarrow>
          (case child of
             Comment t \<Rightarrow> walkDecls callback (visited @ [Comment t]) others
           | Declaration p v \<Rightarrow>
               (case callback p v of
                  Inl err \<Rightarrow> Some (Inl err)
                | Inr (kept, appended) \<Rightarrow> walkDecls callback (visited @ kept) (others @ appended))))"

text \<open>
  \<^verbatim>\<open>processCss\<close>: parse, run the plugin once on the root, print. A syntax error of the
  stylesheet rejects the promise.
\<close>

definition processCss ::
  "env \<Rightarrow> string \<Rightarrow> (css_node list \<Rightarrow> (string + css_node list) option) \<Rightarrow> (string + string) option" where
  "processCss e css plugin =
     (case postcssParse e css of
        Inl err \<Rightarrow> Some (Inl err)
      | Inr nodes \<Rightarrow>
          (case plugin nodes of
             None \<Rightarrow> None
           | Some (Inl err) \<Rightarrow> Some (Inl err)
           | Some (Inr nodes') \<Rightarrow> Some (Inr (postcssStringify e nodes'))))"

definition appendDeclaration ::
  "string \<Rightarrow> string \<Rightarrow> string \<Rightarrow> rule_child list \<Rightarrow> (string + rule_child list) option" where
  "appendDeclaration p v selector children = Some (Inr (children @ [Declaration p v]))"

definition addTailwindCssVariable :: "env \<Rightarrow> string \<Rightarrow> string \<Rightarrow> string \<Rightarrow> (string + string) option" where
  "addTailwindCssVariable e css varName color =
     processCss e css (\<lambda>nodes.
       (case walkRules (\<lambda>s. s = '':root'') (appendDeclaration (''--'' @ varName) color) nodes of
          None \<Rightarrow> None
        | Some (Inl err) \<Rightarrow> Some (Inl err)
        | Some (Inr nodes1) \<Rightarrow>
            walkRules (\<lambda>s. s = ''.dark'') (appendDeclaration (''--'' @ varName) color) nodes1))"

text \<open>
  The callback of \<^verbatim>\<open>rule.walkDecls\<close> in \<^verbatim>\<open>updateTailwindCssVariable\<close>, on a
  declaration with property \<open>p\<close> and value \<open>v\<close>: what is left in its place, and what
  was appended to the rule.
\<close>

definition updateDeclaration ::
  "env \<Rightarrow> string \<Rightarrow> string \<Rightarrow> string \<Rightarrow> bool \<Rightarrow> string \<Rightarrow> string
     \<Rightarrow> string + (rule_child list \<times> rule_child list)" where
  "updateDeclaration e originalName newVarName newColor shouldUpdateValue p v =
     (let renamed = (truthy newVarName \<and> newVarName \<noteq> originalName);
          first =
            (if p = ''--'' @ originalName
             then (if renamed
                   then ([], [Declaration (''--'' @ newVarName) (if shouldUpdateValue then newColor else v)])
                   else if shouldUpdateValue then ([Declaration p newColor], [])
                   else ([Declaration p v], []))
             else ([Declaration p v], []))
      in if renamed
         then (case RegExp_test_anchored e (''--'' @ originalName @ ''-'') p of
                 Inl err \<Rightarrow> Inl err
               | Inr True \<Rightarrow> Inr ([], snd first @ [Declaration (String_replace p originalName newVarName) v])
               | Inr False \<Rightarrow> Inr first)
         else Inr first)"

definition shouldUpdate :: "string \<Rightarrow> Theme option \<Rightarrow> bool \<Rightarrow> bool" where
  "shouldUpdate newColor theme isDarkTheme =
     (truthy newColor \<and>
      (theme = None \<or> (if isDarkTheme then theme = Some Dark else theme = Some Light)))"

definition updateTailwindCssVariable ::
  "env \<Rightarrow> string \<Rightarrow> string \<Rightarrow> string \<Rightarrow> string \<Rightarrow> Theme option \<Rightarrow> (string + string) option" where
  "updateTailwindCssVariable e css originalName newVarName newColor theme =
     processCss e css
       (walkRules (\<lambda>s. s = '':root'' \<or> s = ''.dark'')
          (\<lambda>selector children.
             walkDecls
               (updateDeclaration e originalName newVarName newColor
                  (shouldUpdate newColor theme (selector = ''.dark'')))
               [] children))"

text \<open>
  The declarations of the rules with the given selector whose property starts with two
  hyphens, in document order (\<^verbatim>\<open>walkRules(selector, rule => rule.walkDecls(/^--/, ...))\<close>).
\<close>

fun customProperties :: "string \<Rightarrow> css_node list \<Rightarrow> (string \<times> string) list" where
  "customProperties selector [] = []"
| "customProperties selector (Rule s children # nodes) =
     (if s = selector
      then concat (map (\<lambda>c. case c of
                              Declaration p v \<Rightarrow> if prefix ''--'' p then [(p, v)] else []
                            | Comment t \<Rightarrow> []) children)
      else []) @ customProperties selector nodes"
| "customProperties selector (AtRule name inner # nodes) =
     customProperties selector inner @ customProperties selector nodes"
| "customProperties selector (OtherCss t # nodes) = customProperties selector nodes"

text \<open>
  One declaration stored into a mapping of \<^verbatim>\<open>extractTailwindCssVariables\<close>: the
  colour in hexadecimal when \<^verbatim>\<open>parseHslValue\<close> recognises the value, the value itself
  when it does not or when the conversion throws (the error is caught and logged).
\<close>

definition storeVariable :: "env \<Rightarrow> (string \<rightharpoonup> string) \<Rightarrow> string \<times> string \<Rightarrow> (string \<rightharpoonup> string)" where
  "storeVariable e config d =
     (case parseHslValue e (snd d) of
        Inr (Some hex) \<Rightarrow> config(drop 2 (fst d) \<mapsto> hex)
      | _ \<Rightarrow> config(drop 2 (fst d) \<mapsto> snd d))"

text \<open>
  \<^verbatim>\<open>extractTailwindCssVariables\<close>. The call of the CSS parser is not inside a
  \<^verbatim>\<open>try\<close>: a syntax error of the stylesheet is thrown to the caller.
\<close>

definition extractTailwindCssVariables :: "env \<Rightarrow> string \<Rightarrow> string + CssVariables" where
  "extractTailwindCssVariables e content =
     (case postcssParse e content of
        Inl err \<Rightarrow> Inl err
      | Inr nodes \<Rightarrow>
          Inr \<lparr>root = foldl (storeVariable e) Map.empty (customProperties '':root'' nodes),
               dark = foldl (storeVariable e) Map.empty (customProperties ''.dark'' nodes)\<rparr>)"

section \<open>Reading the colours of the configuration\<close>

text \<open>
  The values of the properties named \<open>name\<close> of an object expression (of any other
  node: none), as the nested \<^verbatim>\<open>forEach\<close> loops of
  \<^verbatim>\<open>extractColorsFromTailwindConfig\<close> select them.
\<close>

fun namedValues :: "string \<Rightarrow> node \<Rightarrow> node list" where
  "namedValues name (ObjectExpression props) =
     concat (map (\<lambda>p. case p of
                         ObjectProperty (Identifier n) v \<Rightarrow> if n = name then [v] else []
                       | _ \<Rightarrow> []) props)"
| "namedValues name _ = []"

text \<open>
  The nodes \<^verbatim>\<open>extendProp.value\<close> that the visitor passes to \<^verbatim>\<open>extractObject\<close>, in
  the order of the traversal: \<^verbatim>\<open>theme\<close>, then \<^verbatim>\<open>extend\<close> (both must be object
  expressions), then \<^verbatim>\<open>colors\<close>.
\<close>

definition themeExtendColors :: "File \<Rightarrow> node list" where
  "themeExtendColors ast =
     concat (map (\<lambda>obj.
       concat (map (\<lambda>theme.
         concat (map (\<lambda>extend. namedValues ''colors'' extend)
                     (filter isObjectExpression (namedValues ''extend'' theme))))
         (filter isObjectExpression (namedValues ''theme'' obj))))
       (objectExpressions ast))"

text \<open>
  \<^verbatim>\<open>extractColorsFromTailwindConfig\<close>: the whole body is inside \<^verbatim>\<open>try\<close>; whatever
  is thrown, the result is the empty object. \<^verbatim>\<open>colors\<close> is assigned at every hit, so
  the last one stays.
\<close>

definition extractColorsFromTailwindConfig :: "env \<Rightarrow> string \<Rightarrow> jsvalue" where
  "extractColorsFromTailwindConfig e fileContent =
     (case parseTypescript e fileContent of
        Inl err \<Rightarrow> JObject []
      | Inr ast \<Rightarrow>
          (case collect (map (extractObject e) (themeExtendColors ast)) of
             Inl err \<Rightarrow> JObject []
           | Inr [] \<Rightarrow> JObject []
           | Inr (c # cs) \<Rightarrow> last (c # cs)))"

section \<open>Class references\<close>

record ClassReplacement =
  oldClass :: string
  newClass :: string

text \<open>
  The callback of \<^verbatim>\<open>oldClasses.map\<close> in \<^verbatim>\<open>updateClassReferences\<close>: the new
  token, and whether \<^verbatim>\<open>hasChanges\<close> was set for it. The first replacement whose test
  passes decides.
\<close>

fun replaceClass :: "ClassReplacement list \<Rightarrow> string \<Rightarrow> string \<times> bool" where
  "replaceClass [] currentClass = (currentClass, False)"
| "replaceClass (r # rs) currentClass =
     (if currentClass = oldClass r \<or> endsWith currentClass (''-'' @ oldClass r)
      then (String_replace currentClass (oldClass r) (newClass r), True)
      else replaceClass rs currentClass)"

text \<open>\<^verbatim>\<open>updates.set(key, v)\<close> on a Map, kept in insertion order.\<close>

fun mapSet :: "('k \<times> 'v) list \<Rightarrow> 'k \<Rightarrow> 'v \<Rightarrow> ('k \<times> 'v) list" where
  "mapSet [] k v = [(k, v)]"
| "mapSet ((k', v') # m) k v = (if k' = k then (k, v) # m else (k', v') # mapSet m k v)"

text \<open>
  The visitor of JSX elements: the entry it sets in \<^verbatim>\<open>updates\<close> (element id and new
  \<^verbatim>\<open>className\<close>), if it sets one.
\<close>

definition updateElement :: "ClassReplacement list \<Rightarrow> JSXElement \<Rightarrow> (string \<times> string) option" where
  "updateElement replacements el =
     (case nodeClasses el of
        ClassError reason \<Rightarrow> None
      | Classes oldClasses \<Rightarrow>
          (let results = map (replaceClass replacements) oldClasses
           in if list_ex snd results
              then (case oid el of
                      None \<Rightarrow> None
                    | Some i \<Rightarrow> if truthy i then Some (i, Array_join '' '' (map fst results)) else None)
              else None))"

text \<open>The work on one source file: the file system it leaves, and whether it threw.\<close>

definition updateFileReferences ::
  "env \<Rightarrow> ClassReplacement list \<Rightarrow> fs \<Rightarrow> string \<Rightarrow> fs \<times> (string + unit)" where
  "updateFileReferences e replacements files file =
     (case readFile e files file of
        Inl err \<Rightarrow> (files, Inl err)
      | Inr None \<Rightarrow> (files, Inr ())
      | Inr (Some content) \<Rightarrow>
          if \<not> truthy content then (files, Inr ())
          else (case parse e content of
                  Inl err \<Rightarrow> (files, Inl err)
                | Inr ast \<Rightarrow>
                    (let updates =
                           foldl (\<lambda>m el. case updateElement replacements el of
                                            None \<Rightarrow> m
                                          | Some (i, c) \<Rightarrow> mapSet m i c)
                                 [] (jsxElements ast)
                     in if updates \<noteq> []
                        then (writeFileSync files file
                                (generate e (transformAst e ast updates)
                                   \<lparr>retainLines = True, compact = None\<rparr> content),
                              Inr ())
                        else (files, Inr ()))))"

text \<open>
  \<^verbatim>\<open>Promise.all\<close> over the source files: every file is worked on, each reads and
  writes only itself, and the promise is rejected when one of them throws. The model
  takes the files in order and keeps the first error.
\<close>

fun updateAllFiles ::
  "env \<Rightarrow> ClassReplacement list \<Rightarrow> fs \<Rightarrow> string list \<Rightarrow> fs \<times> (string + unit)" where
  "updateAllFiles e replacements files [] = (files, Inr ())"
| "updateAllFiles e replacements files (file # others) =
     (case updateFileReferences e replacements files file of
        (files1, Inl err) \<Rightarrow> (fst (updateAllFiles e replacements files1 others), Inl err)
      | (files1, Inr u) \<Rightarrow> updateAllFiles e replacements files1 others)"

definition updateClassReferences ::
  "env \<Rightarrow> fs \<Rightarrow> string \<Rightarrow> ClassReplacement list \<Rightarrow> fs \<times> (string + unit)" where
  "updateClassReferences e files projectRoot replacements =
     (case findSourceFiles e files projectRoot of
        Inl err \<Rightarrow> (files, Inl err)
      | Inr sourceFiles \<Rightarrow> updateAllFiles e replacements files sourceFiles)"

section \<open>Create\<close>

definition configOptions :: GeneratorOptions where
  "configOptions = \<lparr>retainLines = True, compact = Some False\<rparr>"

definition succeeded :: UpdateResult where
  "succeeded = \<lparr>success = True, error = None\<rparr>"

definition failed :: "string \<Rightarrow> UpdateResult" where
  "failed message = \<lparr>success = False, error = Some message\<rparr>"

text \<open>
  Lines 95 to 97 of \<^verbatim>\<open>createTailwindColorVariable\<close>: the name of the custom property
  of a new colour.
\<close>

definition createdCssVarName :: "env \<Rightarrow> string \<Rightarrow> string option \<Rightarrow> string" where
  "createdCssVarName e newName parentName =
     (let camelCaseName = toCamelCase e newName
      in case parentName of
           None \<Rightarrow> camelCaseName
         | Some p \<Rightarrow> if length p \<noteq> 0 then p @ ''-'' @ camelCaseName else camelCaseName)"

definition createTailwindColorVariable ::
  "env \<Rightarrow> fs \<Rightarrow> ColorUpdate \<Rightarrow> string \<Rightarrow> string \<Rightarrow> string option \<Rightarrow> UpdateResult promise" where
  "createTailwindColorVariable e files cu newColor newName parentName =
     (let camelCaseName = toCamelCase e newName;
          newCssVarName = createdCssVarName e newName parentName
      in case addTailwindCssVariable e (cssContent cu) newCssVarName newColor of
           None \<Rightarrow> None
         | Some (Inl err) \<Rightarrow> Some (files, Inl err)
         | Some (Inr updatedCssContent) \<Rightarrow>
             (let files1 = writeFileSync files (cssPath cu) updatedCssContent
              in case parse e (configContent cu) of
                   Inl err \<Rightarrow> Some (files1, Inl err)
                 | Inr updateAst \<Rightarrow>
                     Some (writeFileSync files1 (configPath cu)
                             (generate e
                                (traverseColors
                                   (createColorVisitor e parentName camelCaseName newCssVarName)
                                   updateAst)
                                configOptions (configContent cu)),
                           Inr succeeded)))"

section \<open>Rename and recolour\<close>

text \<open>
  The inner \<^verbatim>\<open>forEach\<close> of the branch that renames a root colour: the reference held
  by a child with an identifier key and a string value is rewritten from the old prefix
  to the new one.
\<close>

definition renameNestedReference :: "env \<Rightarrow> string \<Rightarrow> string \<Rightarrow> node \<Rightarrow> string + node" where
  "renameNestedReference e parentKey newName nestedProp =
     (case nestedProp of
        ObjectProperty (Identifier n) (StringLiteral v) \<Rightarrow>
          (let oldVarName = (if n = ''DEFAULT'' then parentKey else parentKey @ ''-'' @ n);
               newVarName = (if n = ''DEFAULT'' then toCamelCase e newName
                             else toCamelCase e newName @ ''-'' @ n)
           in case RegExp_replace_global e (''--'' @ oldVarName) (''--'' @ newVarName) v of
                Inl err \<Rightarrow> Inl err
              | Inr v' \<Rightarrow> Inr (ObjectProperty (Identifier n) (StringLiteral v')))
      | _ \<Rightarrow> Inr nestedProp)"

text \<open>
  The inner \<^verbatim>\<open>forEach\<close> of the branch with a key name: the property after the
  visit, whether \<^verbatim>\<open>keyUpdated\<close> was set and whether \<^verbatim>\<open>valueUpdated\<close> was set.
\<close>

definition updateNestedProperty ::
  "env \<Rightarrow> string \<Rightarrow> string \<Rightarrow> string \<Rightarrow> string \<Rightarrow> node \<Rightarrow> node \<times> bool \<times> bool" where
  "updateNestedProperty e parentKey keyName newName newCssVarName nestedProp =
     (case nestedProp of
        ObjectProperty (Identifier n) v \<Rightarrow>
          if n = keyName
          then (let key' = (if newName \<noteq> keyName then toCamelCase e newName else n)
                in case v of
                     StringLiteral old \<Rightarrow>
                       (ObjectProperty (Identifier key')
                          (StringLiteral
                             (varReference (if keyName = ''DEFAULT'' then parentKey else newCssVarName))),
                        newName \<noteq> keyName, True)
                   | _ \<Rightarrow> (ObjectProperty (Identifier key') v, newName \<noteq> keyName, False))
          else (nestedProp, False, False)
      | _ \<Rightarrow> (nestedProp, False, False))"

text \<open>The callback of \<^verbatim>\<open>colorObj.properties.forEach\<close>.\<close>

definition updateColorProp ::
  "env \<Rightarrow> string \<Rightarrow> string option \<Rightarrow> string \<Rightarrow> string \<Rightarrow> node \<Rightarrow> string + (node \<times> bool \<times> bool)" where
  "updateColorProp e parentKey keyName newName newCssVarName colorProp =
     (case colorProp of
        ObjectProperty (Identifier n) (ObjectExpression nested) \<Rightarrow>
          if n = parentKey
          then (if \<not> truthyOpt keyName
                then (if truthy parentKey \<and> newName \<noteq> parentKey
                      then (case collect (map (renameNestedReference e parentKey newName) nested) of
                              Inl err \<Rightarrow> Inl err
                            | Inr nested' \<Rightarrow>
                                Inr (ObjectProperty (Identifier (toCamelCase e newName))
                                       (ObjectExpression nested'), True, False))
                      else Inr (colorProp, False, False))
                else (let results =
                            map (updateNestedProperty e parentKey (interpolate keyName) newName newCssVarName)
                                nested
                      in Inr (ObjectProperty (Identifier n) (ObjectExpression (map fst results)),
                              list_ex (\<lambda>r. fst (snd r)) results,
                              list_ex (\<lambda>r. snd (snd r)) results)))
          else Inr (colorProp, False, False)
      | _ \<Rightarrow> Inr (colorProp, False, False))"

text \<open>The body of the visitor in \<^verbatim>\<open>updateTailwindConfigFile\<close>, on one colours value.\<close>

definition updateColorVisitor ::
  "env \<Rightarrow> string \<Rightarrow> string option \<Rightarrow> string \<Rightarrow> string \<Rightarrow> node \<Rightarrow> string + (node \<times> bool \<times> bool)" where
  "updateColorVisitor e parentKey keyName newName newCssVarName colorObj =
     (case colorObj of
        ObjectExpression props \<Rightarrow>
          (case collect (map (updateColorProp e parentKey keyName newName newCssVarName) props) of
             Inl err \<Rightarrow> Inl err
           | Inr results \<Rightarrow>
               Inr (ObjectExpression (map fst results),
                    list_ex (\<lambda>r. fst (snd r)) results,
                    list_ex (\<lambda>r. snd (snd r)) results))
      | _ \<Rightarrow> Inr (colorObj, False, False))"

text \<open>The traversal of \<^verbatim>\<open>updateTailwindConfigFile\<close>: the tree and the two flags.\<close>

definition updateConfigAst ::
  "env \<Rightarrow> string \<Rightarrow> string option \<Rightarrow> string \<Rightarrow> string \<Rightarrow> File \<Rightarrow> string + (File \<times> bool \<times> bool)" where
  "updateConfigAst e parentKey keyName newName newCssVarName ast =
     (case collect (map (updateColorVisitor e parentKey keyName newName newCssVarName)
                        (colorsValues ast)) of
        Inl err \<Rightarrow> Inl err
      | Inr results \<Rightarrow>
          Inr (ast\<lparr>colorsValues := map fst results\<rparr>,
               list_ex (\<lambda>r. fst (snd r)) results,
               list_ex (\<lambda>r. snd (snd r)) results))"

definition updateTailwindConfigFile ::
  "env \<Rightarrow> string \<Rightarrow> string \<Rightarrow> string option \<Rightarrow> string \<Rightarrow> string \<Rightarrow> string + ConfigUpdateResult" where
  "updateTailwindConfigFile e content parentKey keyName newName newCssVarName =
     (case parse e content of
        Inl err \<Rightarrow> Inl err
      | Inr updateAst \<Rightarrow>
          (case updateConfigAst e parentKey keyName newName newCssVarName updateAst of
             Inl err \<Rightarrow> Inl err
           | Inr (ast', keyUpd, valueUpd) \<Rightarrow>
               Inr \<lparr>keyUpdated = keyUpd, valueUpdated = valueUpd,
                    outputCode = generate e ast' configOptions content\<rparr>))"

text \<open>
  Lines 239 to 251 of \<^verbatim>\<open>updateTailwindColorVariable\<close>: the new name of the custom
  property (\<^verbatim>\<open>newCssVarName\<close>) and the name of the property to look for (the
  reassigned \<^verbatim>\<open>originalName\<close>).
\<close>

definition newCssVarNameOf :: "string \<Rightarrow> string option \<Rightarrow> string \<Rightarrow> string \<Rightarrow> string \<times> string" where
  "newCssVarNameOf parentKey keyName originalName newName =
     (if \<not> truthyOpt keyName
      then (if newName \<noteq> parentKey then newName else originalName, originalName)
      else if keyName = Some ''DEFAULT''
      then (parentKey, parentKey)
      else (if Some newName \<noteq> keyName then parentKey @ ''-'' @ newName else originalName,
            originalName))"

definition updateTailwindColorVariable ::
  "env \<Rightarrow> fs \<Rightarrow> ColorUpdate \<Rightarrow> string \<Rightarrow> string \<Rightarrow> string \<Rightarrow> Theme option \<Rightarrow> UpdateResult promise" where
  "updateTailwindColorVariable e files cu originalName newColor newName theme =
     (case String_split (CHR ''-'') originalName of
        [] \<Rightarrow> Some (files, Inr (failed (''Invalid color key format: '' @ originalName)))
      | parentKey # segments \<Rightarrow>
          if \<not> truthy parentKey
          then Some (files, Inr (failed (''Invalid color key format: '' @ originalName)))
          else
            (let keyName = (case segments of [] \<Rightarrow> None | k # ks \<Rightarrow> Some k);
                 names = newCssVarNameOf parentKey keyName originalName newName;
                 newCssVarName = fst names;
                 originalName' = snd names
             in case updateTailwindCssVariable e (cssContent cu) originalName' newCssVarName
                       newColor theme of
                  None \<Rightarrow> None
                | Some (Inl err) \<Rightarrow> Some (files, Inl err)
                | Some (Inr updatedCssContent) \<Rightarrow>
                    (let files1 = writeFileSync files (cssPath cu) updatedCssContent
                     in case updateTailwindConfigFile e (configContent cu) parentKey keyName
                               newName newCssVarName of
                          Inl err \<Rightarrow> Some (files1, Inl err)
                        | Inr r \<Rightarrow>
                            if keyUpdated r \<or> valueUpdated r
                            then (let files2 = writeFileSync files1 (configPath cu) (outputCode r)
                                  in if keyUpdated r
                                     then (case updateClassReferences e files2 (dirname e (configPath cu))
                                                  [\<lparr>oldClass = parentKey @ ''-'' @ interpolate keyName,
                                                    newClass = parentKey @ ''-'' @ newName\<rparr>] of
                                             (files3, Inl err) \<Rightarrow> Some (files3, Inl err)
                                           | (files3, Inr u) \<Rightarrow> Some (files3, Inr succeeded))
                                     else Some (files2, Inr succeeded))
                            else Some (files1, Inr succeeded))))"

section \<open>Delete\<close>

text \<open>The body of the visitor in \<^verbatim>\<open>deleteColorGroup\<close>, on one colours value.\<close>

definition deleteColorVisitor :: "string \<Rightarrow> string option \<Rightarrow> node \<Rightarrow> node" where
  "deleteColorVisitor camelCaseName colorName colorObj =
     (case colorObj of
        ObjectExpression props \<Rightarrow>
          (case findIndex (isNamedProperty camelCaseName) props of
             None \<Rightarrow> colorObj
           | Some groupIndex \<Rightarrow>
               (case props ! groupIndex of
                  ObjectProperty k (ObjectExpression nested) \<Rightarrow>
                    if truthyOpt colorName
                    then (case findIndex (isNamedProperty (interpolate colorName)) nested of
                            None \<Rightarrow> colorObj
                          | Some colorIndex \<Rightarrow>
                              if length (splice1 colorIndex nested) = 0
                              then ObjectExpression (splice1 groupIndex props)
                              else ObjectExpression
                                     (props[groupIndex :=
                                        ObjectProperty k (ObjectExpression (splice1 colorIndex nested))]))
                    else ObjectExpression (splice1 groupIndex props)
                | _ \<Rightarrow> colorObj))
      | _ \<Rightarrow> colorObj)"

text \<open>The callback of \<^verbatim>\<open>cssLines.filter\<close>: whether the line is kept.\<close>

definition keepCssLine :: "string \<Rightarrow> string option \<Rightarrow> string \<Rightarrow> bool" where
  "keepCssLine camelCaseName colorName line =
     (let trimmedLine = String_trim line
      in if truthyOpt colorName
         then \<not> startsWith trimmedLine (''--'' @ camelCaseName @ ''-'' @ interpolate colorName)
         else \<not> startsWith trimmedLine (''--'' @ camelCaseName))"

definition deleteColorGroup ::
  "env \<Rightarrow> fs \<Rightarrow> ColorUpdate \<Rightarrow> string \<Rightarrow> string option \<Rightarrow> UpdateResult promise" where
  "deleteColorGroup e files cu groupName colorName =
     (let camelCaseName = toCamelCase e groupName
      in case parse e (configContent cu) of
           Inl err \<Rightarrow> Some (files, Inl err)
         | Inr updateAst \<Rightarrow>
             (let ast' = traverseColors (deleteColorVisitor camelCaseName colorName) updateAst;
                  cssLines = String_split (CHR 0x0A) (cssContent cu);
                  updatedCssLines = filter (keepCssLine camelCaseName colorName) cssLines;
                  updatedCssContent = Array_join [CHR 0x0A] updatedCssLines;
                  files1 = writeFileSync files (cssPath cu) updatedCssContent
              in Some (writeFileSync files1 (configPath cu)
                         (generate e ast' configOptions (configContent cu)),
                       Inr succeeded)))"

section \<open>The public entry points\<close>

text \<open>
  \<^verbatim>\<open>updateTailwindColorConfig\<close>. The call of \<^verbatim>\<open>initializeTailwindColorContent\<close> is
  awaited inside \<^verbatim>\<open>try\<close>, so its rejection reaches \<^verbatim>\<open>catch\<close>. The promise of the
  mutation is returned without \<^verbatim>\<open>await\<close>: the \<^verbatim>\<open>try\<close> block is left before that
  promise settles, and the promise of the entry point settles as it does.
\<close>

definition updateTailwindColorConfig ::
  "env \<Rightarrow> fs \<Rightarrow> string \<Rightarrow> string \<Rightarrow> string \<Rightarrow> string \<Rightarrow> Theme option \<Rightarrow> string option
     \<Rightarrow> UpdateResult promise" where
  "updateTailwindColorConfig e files projectRoot originalName newColor newName theme parentName =
     (case initializeTailwindColorContent e files projectRoot of
        Inl err \<Rightarrow> Some (files, Inr (failed err))
      | Inr None \<Rightarrow> Some (files, Inr (failed ''Failed to prepare color update''))
      | Inr (Some colorUpdate) \<Rightarrow>
          if truthy originalName
          then updateTailwindColorVariable e files colorUpdate originalName newColor newName theme
          else createTailwindColorVariable e files colorUpdate newColor newName parentName)"

definition deleteTailwindColorGroup ::
  "env \<Rightarrow> fs \<Rightarrow> string \<Rightarrow> string \<Rightarrow> string option \<Rightarrow> UpdateResult promise" where
  "deleteTailwindColorGroup e files projectRoot groupName colorName =
     (case initializeTailwindColorContent e files projectRoot of
        Inl err \<Rightarrow> Some (files, Inr (failed err))
      | Inr None \<Rightarrow> Some (files, Inr (failed ''Failed to prepare color update''))
      | Inr (Some colorUpdate) \<Rightarrow> deleteColorGroup e files colorUpdate groupName colorName)"

text \<open>
  \<^verbatim>\<open>scanTailwindConfig\<close>: every call is made inside \<^verbatim>\<open>try\<close> and awaited there, so
  whatever is thrown gives \<^verbatim>\<open>null\<close> (\<open>None\<close>).
\<close>

definition scanTailwindConfig :: "env \<Rightarrow> fs \<Rightarrow> string \<Rightarrow> ScanResult option" where
  "scanTailwindConfig e files projectRoot =
     (case getConfigPath e files projectRoot of
        Inl err \<Rightarrow> None
      | Inr (None, css) \<Rightarrow> None
      | Inr (Some configPath', None) \<Rightarrow> None
      | Inr (Some configPath', Some cssPath') \<Rightarrow>
          if \<not> truthy configPath' \<or> \<not> truthy cssPath' then None
          else
            (case readFile e files configPath' of
               Inl err \<Rightarrow> None
             | Inr None \<Rightarrow> None
             | Inr (Some configContent') \<Rightarrow>
                 if \<not> truthy configContent' then None
                 else
                   (case readFile e files cssPath' of
                      Inl err \<Rightarrow> None
                    | Inr cssContent' \<Rightarrow>
                        if \<not> truthyOpt cssContent'
                        then (case extractTailwindCssVariables e [] of
                                Inl err \<Rightarrow> None
                              | Inr variables \<Rightarrow>
                                  Some \<lparr>scanConfigPath = configPath',
                                        scanConfigContent =
                                          extractColorsFromTailwindConfig e configContent',
                                        scanCssPath = cssPath',
                                        scanCssContent = variables\<rparr>)
                        else (case extractTailwindCssVariables e (interpolate cssContent') of
                                Inl err \<Rightarrow> None
                              | Inr variables \<Rightarrow>
                                  Some \<lparr>scanConfigPath = configPath',
                                        scanConfigContent =
                                          extractColorsFromTailwindConfig e configContent',
                                        scanCssPath = cssPath',
                                        scanCssContent = variables\<rparr>))))"

section \<open>What the specification says of the effects\<close>

text \<open>
  The functions of this section are not translations of the source: they state, in the
  words of the specification, the effect that a theorem below proves of the code.
\<close>

text \<open>
  "Appends one declaration [...] to the root scope, and an identical declaration to the
  dark-mode scope": the declaration \<open>d\<close> at the end of every rule whose selector is
  \<open>scope\<close>.
\<close>

fun appendToScope :: "string \<Rightarrow> rule_child \<Rightarrow> css_node list \<Rightarrow> css_node list" where
  "appendToScope scope d [] = []"
| "appendToScope scope d (Rule selector children # nodes) =
     Rule selector (if selector = scope then children @ [d] else children) # appendToScope scope d nodes"
| "appendToScope scope d (AtRule name inner # nodes) =
     AtRule name (appendToScope scope d inner) # appendToScope scope d nodes"
| "appendToScope scope d (OtherCss t # nodes) = OtherCss t # appendToScope scope d nodes"

text \<open>
  "Matching declarations are updated in place [...] unless the caller's scope filter
  selects this scope for recoloring": a scope is recoloured when a colour is given and
  the theme, if any, names the scope.
\<close>

definition scopeSelected :: "string \<Rightarrow> Theme option \<Rightarrow> string \<Rightarrow> bool" where
  "scopeSelected color theme selector =
     (color \<noteq> [] \<and>
      ((selector = '':root'' \<and> (theme = None \<or> theme = Some Light)) \<or>
       (selector = ''.dark'' \<and> (theme = None \<or> theme = Some Dark))))"

fun recolourChild :: "string \<Rightarrow> string \<Rightarrow> rule_child \<Rightarrow> rule_child" where
  "recolourChild property color (Declaration p v) =
     (if p = property then Declaration p color else Declaration p v)"
| "recolourChild property color (Comment t) = Comment t"

fun recolourScopes :: "string \<Rightarrow> string \<Rightarrow> Theme option \<Rightarrow> css_node list \<Rightarrow> css_node list" where
  "recolourScopes property color theme [] = []"
| "recolourScopes property color theme (Rule selector children # nodes) =
     Rule selector (if scopeSelected color theme selector
                    then map (recolourChild property color) children else children)
       # recolourScopes property color theme nodes"
| "recolourScopes property color theme (AtRule name inner # nodes) =
     AtRule name (recolourScopes property color theme inner) # recolourScopes property color theme nodes"
| "recolourScopes property color theme (OtherCss t # nodes) =
     OtherCss t # recolourScopes property color theme nodes"


text \<open>
  What a rename to the same name leaves of a colours value: in every group named
  \<open>parentKey\<close>, the string value of every child named \<open>keyName\<close> is the given
  reference; nothing else changes.
\<close>

fun setChildReference :: "string \<Rightarrow> string \<Rightarrow> node \<Rightarrow> node" where
  "setChildReference keyName reference (ObjectProperty (Identifier n) (StringLiteral old)) =
     ObjectProperty (Identifier n) (StringLiteral (if n = keyName then reference else old))"
| "setChildReference keyName reference other = other"

fun setGroupReference :: "string \<Rightarrow> string \<Rightarrow> string \<Rightarrow> node \<Rightarrow> node" where
  "setGroupReference parentKey keyName reference (ObjectProperty (Identifier n) (ObjectExpression nested)) =
     ObjectProperty (Identifier n)
       (ObjectExpression (if n = parentKey then map (setChildReference keyName reference) nested
                          else nested))"
| "setGroupReference parentKey keyName reference other = other"

fun setReference :: "string \<Rightarrow> string \<Rightarrow> string \<Rightarrow> node \<Rightarrow> node" where
  "setReference parentKey keyName reference (ObjectExpression props) =
     ObjectExpression (map (setGroupReference parentKey keyName reference) props)"
| "setReference parentKey keyName reference other = other"

fun isStringChild :: "string \<Rightarrow> node \<Rightarrow> bool" where
  "isStringChild keyName (ObjectProperty (Identifier n) (StringLiteral old)) = (n = keyName)"
| "isStringChild keyName other = False"

fun hasStringChild :: "string \<Rightarrow> string \<Rightarrow> node \<Rightarrow> bool" where
  "hasStringChild parentKey keyName (ObjectProperty (Identifier n) (ObjectExpression nested)) =
     (n = parentKey \<and> list_ex (isStringChild keyName) nested)"
| "hasStringChild parentKey keyName other = False"

fun colorsHaveStringChild :: "string \<Rightarrow> string \<Rightarrow> node \<Rightarrow> bool" where
  "colorsHaveStringChild parentKey keyName (ObjectExpression props) =
     list_ex (hasStringChild parentKey keyName) props"
| "colorsHaveStringChild parentKey keyName other = False"

text \<open>
  "Every leaf color value in the configuration tree is a reference
  \<^verbatim>\<open>var(--<custom-property-name>)\<close>": the leaves are the string values of the
  properties, at any depth.
\<close>

definition isVarReference :: "string \<Rightarrow> bool" where
  "isVarReference v = (prefix ''var(--'' v \<and> suffix '')'' v \<and> 7 \<le> length v)"

fun leafValues :: "node \<Rightarrow> string list" where
  "leafValues (StringLiteral v) = [v]"
| "leafValues (ObjectExpression props) = concat (map leafValues props)"
| "leafValues (ObjectProperty k v) = leafValues v"
| "leafValues other = []"

definition leavesAreReferences :: "node \<Rightarrow> bool" where
  "leavesAreReferences obj = list_all isVarReference (leafValues obj)"

definition configLeavesAreReferences :: "File \<Rightarrow> bool" where
  "configLeavesAreReferences ast = list_all leavesAreReferences (colorsValues ast)"

text \<open>No key of the tree holds a syntax character of the pattern language.\<close>

fun plainKeys :: "node \<Rightarrow> bool" where
  "plainKeys (ObjectExpression props) = list_all plainKeys props"
| "plainKeys (ObjectProperty (Identifier n) v) =
     (list_all (\<lambda>c. \<not> isSyntaxCharacter c) n \<and> plainKeys v)"
| "plainKeys (ObjectProperty k v) = plainKeys v"
| "plainKeys other = True"

section \<open>A small environment to run the model\<close>

text \<open>
  The theorems below hold for every environment. To evaluate the model on concrete
  files, this section fixes one: a printer of the colours objects and of stylesheets, a
  parser that reads back the printed form of the trees it is given in a table (and
  rejects every other text), a file lookup under the project root, and a
  \<^verbatim>\<open>toCamelCase\<close> that leaves its argument as it is.
\<close>

fun printNode :: "node \<Rightarrow> string" where
  "printNode (Identifier n) = n"
| "printNode (StringLiteral v) = [CHR 0x27] @ v @ [CHR 0x27]"
| "printNode (ObjectExpression props) = ''{'' @ Array_join '', '' (map printNode props) @ ''}''"
| "printNode (ObjectProperty k v) = printNode k @ '': '' @ printNode v"
| "printNode (OtherNode t) = t"

definition printFile :: "File \<Rightarrow> string" where
  "printFile ast = Array_join ''; '' (map (\<lambda>v. ''colors: '' @ printNode v) (colorsValues ast))"

fun printChild :: "rule_child \<Rightarrow> string" where
  "printChild (Declaration p v) = p @ '': '' @ v @ '';''"
| "printChild (Comment t) = ''/*'' @ t @ ''*/''"

fun printCss :: "css_node list \<Rightarrow> string" where
  "printCss [] = []"
| "printCss (Rule selector children # nodes) =
     selector @ '' {'' @ Array_join '' '' (map printChild children) @ ''}'' @ printCss nodes"
| "printCss (AtRule name inner # nodes) = name @ '' {'' @ printCss inner @ ''}'' @ printCss nodes"
| "printCss (OtherCss t # nodes) = t @ printCss nodes"

definition sampleEnv :: "File list \<Rightarrow> css_node list list \<Rightarrow> env" where
  "sampleEnv configs sheets =
     \<lparr>toCamelCase = (\<lambda>s. s),
      parse = (\<lambda>text. case List.find (\<lambda>f. printFile f = text) configs of
                          Some f \<Rightarrow> Inr f | None \<Rightarrow> Inl ''SyntaxError''),
      parseTypescript = (\<lambda>text. case List.find (\<lambda>f. printFile f = text) configs of
                          Some f \<Rightarrow> Inr f | None \<Rightarrow> Inl ''SyntaxError''),
      generate = (\<lambda>ast options original. printFile ast),
      transformAst = (\<lambda>ast updates. ast),
      extractObject = (\<lambda>n. Inr (JString (printNode n))),
      postcssParse = (\<lambda>text. case List.find (\<lambda>n. printCss n = text) sheets of
                          Some n \<Rightarrow> Inr n | None \<Rightarrow> Inl ''CssSyntaxError''),
      postcssStringify = printCss,
      regExpTest = (\<lambda>pattern s. Inl ''SyntaxError''),
      regExpReplaceAll = (\<lambda>pattern replacement s. Inl ''SyntaxError''),
      parseHslValue = (\<lambda>v. Inr None),
      getConfigPath = (\<lambda>files projectRoot.
                         Inr (Some (projectRoot @ ''/tailwind.config.ts''),
                              Some (projectRoot @ ''/globals.css''))),
      initializeTailwindColorContent = (\<lambda>files projectRoot.
         case (files (projectRoot @ ''/tailwind.config.ts''), files (projectRoot @ ''/globals.css'')) of
           (Some config, Some css) \<Rightarrow>
             Inr (Some \<lparr>configPath = projectRoot @ ''/tailwind.config.ts'',
                         cssPath = projectRoot @ ''/globals.css'',
                         configContent = config, cssContent = css\<rparr>)
         | _ \<Rightarrow> Inr None),
      findSourceFiles = (\<lambda>files projectRoot. Inr []),
      readFile = (\<lambda>files path. Inr (files path)),
      dirname = (\<lambda>path. ''/app'')\<rparr>"

definition sampleColors :: node where
  "sampleColors =
     ObjectExpression
       [ObjectProperty (Identifier ''white'') (StringLiteral ''#ffffff''),
        ObjectProperty (Identifier ''brand'')
          (ObjectExpression
             [ObjectProperty (Identifier ''accent'') (StringLiteral ''var(--brand-accent)'')])]"

definition sampleConfig :: File where
  "sampleConfig = \<lparr>colorsValues = [sampleColors], objectExpressions = [], jsxElements = []\<rparr>"

definition sampleLines :: "string list" where
  "sampleLines = ['':root {'', ''  --brand-accent: #ff0000;'', ''  --brandy: #111111;'', ''}'']"

definition sampleDelete :: ColorUpdate where
  "sampleDelete =
     \<lparr>configPath = ''/app/tailwind.config.ts'', cssPath = ''/app/globals.css'',
      configContent = printFile sampleConfig, cssContent = Array_join [CHR 0x0A] sampleLines\<rparr>"




definition sampleSheet :: "css_node list" where
  "sampleSheet =
     [AtRule ''@layer base''
        [Rule '':root'' [Declaration ''--brand'' ''#111111'', Declaration ''--brand-accent'' ''#ff0000''],
         Rule ''.dark'' [Declaration ''--brand'' ''#eeeeee'', Declaration ''--brand-accent'' ''#00ff00'']],
      Rule ''body'' [Declaration ''color'' ''var(--brand)'']]"

definition sampleUpdate :: "File \<Rightarrow> css_node list \<Rightarrow> ColorUpdate" where
  "sampleUpdate config sheet =
     \<lparr>configPath = ''/app/tailwind.config.ts'', cssPath = ''/app/globals.css'',
      configContent = printFile config, cssContent = printCss sheet\<rparr>"

definition sampleFiles :: "File \<Rightarrow> css_node list \<Rightarrow> fs" where
  "sampleFiles config sheet =
     [''/app/tailwind.config.ts'' \<mapsto> printFile config, ''/app/globals.css'' \<mapsto> printCss sheet]"

text \<open>A declaration whose property starts with \<^verbatim>\<open>--brand-\<close>.\<close>

fun extendsBrand :: "rule_child \<Rightarrow> bool" where
  "extendsBrand (Declaration p v) = prefix ''--brand-'' p"
| "extendsBrand (Comment t) = False"

definition literalConfig :: File where
  "literalConfig =
     \<lparr>colorsValues =
        [ObjectExpression
           [ObjectProperty (Identifier ''brand'')
              (ObjectExpression [ObjectProperty (Identifier ''accent'') (StringLiteral ''#ff0000'')])]],
      objectExpressions = [], jsxElements = []\<rparr>"

definition defaultConfig :: File where
  "defaultConfig =
     \<lparr>colorsValues =
        [ObjectExpression
           [ObjectProperty (Identifier ''brand'')
              (ObjectExpression
                 [ObjectProperty (Identifier ''DEFAULT'') (StringLiteral ''var(--brand)''),
                  ObjectProperty (Identifier ''accent'') (StringLiteral ''var(--brand-accent)'')])]],
      objectExpressions = [], jsxElements = []\<rparr>"

section \<open>Properties of the entry points\<close>

text \<open>
  C1. The claim: no public entry point throws or rejects; every error thrown inside is
  returned as a failure result. \<^verbatim>\<open>scanTailwindConfig\<close> awaits everything inside its
  \<^verbatim>\<open>try\<close>. The two other entry points return the promise of the mutation without
  awaiting it, so a rejection of the mutation is not caught: when the configuration file
  does not parse, \<^verbatim>\<open>deleteTailwindColorGroup\<close> is rejected with the parser's error, and
  when the stylesheet does not parse, so is a create through
  \<^verbatim>\<open>updateTailwindColorConfig\<close>.
\<close>

theorem entry_point_rejection_not_caught:
  "deleteTailwindColorGroup
     (e\<lparr>initializeTailwindColorContent := (\<lambda>files projectRoot. Inr (Some cu)),
        parse := (\<lambda>content. Inl err)\<rparr>)
     files projectRoot groupName colorName = Some (files, Inl err)
   \<and> updateTailwindColorConfig
     (e\<lparr>initializeTailwindColorContent := (\<lambda>files projectRoot. Inr (Some cu)),
        postcssParse := (\<lambda>content. Inl err)\<rparr>)
     files projectRoot [] newColor newName theme parentName = Some (files, Inl err)"
  by (simp add: deleteTailwindColorGroup_def deleteColorGroup_def updateTailwindColorConfig_def
      truthy_def createTailwindColorVariable_def addTailwindCssVariable_def processCss_def)

text \<open>
  C10. When the configuration file is located and read and the stylesheet cannot be read
  (\<^verbatim>\<open>readFile\<close> gives \<^verbatim>\<open>null\<close> or the empty string), the scan does not return
  \<^verbatim>\<open>null\<close>: it returns the colours extracted from the configuration and two empty
  mappings for the stylesheet. The CSS parser is taken to read the empty string as the
  empty stylesheet.
\<close>

theorem scan_css_unreadable:
  assumes "getConfigPath e files projectRoot = Inr (Some config, Some css)"
    and "truthy config" and "truthy css"
    and "readFile e files config = Inr (Some content)" and "truthy content"
    and "readFile e files css = Inr unread" and "\<not> truthyOpt unread"
    and "postcssParse e [] = Inr []"
  shows "scanTailwindConfig e files projectRoot =
           Some \<lparr>scanConfigPath = config,
                 scanConfigContent = extractColorsFromTailwindConfig e content,
                 scanCssPath = css,
                 scanCssContent = \<lparr>root = Map.empty, dark = Map.empty\<rparr>\<rparr>"
  using assms by (simp add: scanTailwindConfig_def extractTailwindCssVariables_def)

theorem scan_css_unreadable_witness:
  "scanTailwindConfig (sampleEnv [] [[]]) [''/app/tailwind.config.ts'' \<mapsto> ''module.exports = {}'']
     ''/app'' =
   Some \<lparr>scanConfigPath = ''/app/tailwind.config.ts'',
         scanConfigContent =
           extractColorsFromTailwindConfig (sampleEnv [] [[]]) ''module.exports = {}'',
         scanCssPath = ''/app/globals.css'',
         scanCssContent = \<lparr>root = Map.empty, dark = Map.empty\<rparr>\<rparr>"
  using scan_css_unreadable [of "sampleEnv [] [[]]"
      "[''/app/tailwind.config.ts'' \<mapsto> ''module.exports = {}'']" "''/app''"
      "''/app/tailwind.config.ts''" "''/app/globals.css''" "''module.exports = {}''" None]
  by (simp add: sampleEnv_def truthy_def)

section \<open>Properties of the extractors\<close>

text \<open>
  C7. The claim: each extractor catches a parse failure itself and yields an empty
  mapping. \<^verbatim>\<open>extractColorsFromTailwindConfig\<close> does; in
  \<^verbatim>\<open>extractTailwindCssVariables\<close> the call of the CSS parser stands outside every
  \<^verbatim>\<open>try\<close>, so its error is thrown to the caller.
\<close>

theorem extractTailwindCssVariables_throws:
  "extractTailwindCssVariables (e\<lparr>postcssParse := (\<lambda>content. Inl err)\<rparr>) content = Inl err"
  by (simp add: extractTailwindCssVariables_def)

section \<open>Properties of the class-reference updater\<close>

text \<open>
  C5. A class token is rewritten for a replacement pair exactly when it equals the old
  class or ends with a hyphen and the old class; the comment in the source says that only
  that trailing part is replaced and any prefix is kept. The code calls
  \<^verbatim>\<open>currentClass.replace(oldClass, newClass)\<close>, which replaces the first occurrence:
  in the token below the old class also stands in the named-group prefix, so the prefix
  is rewritten and the trailing colour class is left as it was.
\<close>

theorem replaceClass_first_occurrence:
  "replaceClass [\<lparr>oldClass = ''brand-accent'', newClass = ''brand-accent2''\<rparr>]
     ''group-hover/brand-accent:bg-brand-accent''
   = (''group-hover/brand-accent2:bg-brand-accent'', True)"
  by (simp add: endsWith_def String_replace_def suffix_def)

section \<open>Properties of delete\<close>








section \<open>Properties of create\<close>

lemma walkRules_appendDeclaration:
  "walkRules (\<lambda>s. s = scope) (appendDeclaration p v) nodes =
     Some (Inr (appendToScope scope (Declaration p v) nodes))"
  by (induction scope "Declaration p v" nodes rule: appendToScope.induct)
     (simp_all add: appendDeclaration_def)

lemma addTailwindCssVariable_appends:
  "postcssParse e css = Inr sheet \<Longrightarrow>
   addTailwindCssVariable e css varName color =
     Some (Inr (postcssStringify e
       (appendToScope ''.dark'' (Declaration (''--'' @ varName) color)
          (appendToScope '':root'' (Declaration (''--'' @ varName) color) sheet))))"
  by (simp add: addTailwindCssVariable_def processCss_def walkRules_appendDeclaration)

text \<open>
  C6. A create with no parent group (\<^verbatim>\<open>parentName\<close> undefined or empty), through the
  entry point and whatever the theme argument: every colours object gains the entry
  \<open>name: 'var(--name)'\<close> at its end, where \<open>name\<close> is the new name in camel case, and
  the declaration \<open>--name: v\<close> is appended to every \<^verbatim>\<open>:root\<close> rule and to every
  \<^verbatim>\<open>.dark\<close> rule of the stylesheet; the result is success. Both files must parse.
\<close>

theorem create_root_color:
  assumes "initializeTailwindColorContent e files projectRoot = Inr (Some cu)"
    and "postcssParse e (cssContent cu) = Inr sheet"
    and "parse e (configContent cu) = Inr ast"
    and "\<not> truthyOpt parentName"
    and "name = toCamelCase e n"
  shows "updateTailwindColorConfig e files projectRoot [] v n theme parentName =
           Some ((files(cssPath cu \<mapsto>
                     postcssStringify e
                       (appendToScope ''.dark'' (Declaration (''--'' @ name) v)
                          (appendToScope '':root'' (Declaration (''--'' @ name) v) sheet))))
                   (configPath cu \<mapsto>
                     generate e
                       (ast\<lparr>colorsValues :=
                              map (createColorVisitor e parentName name name) (colorsValues ast)\<rparr>)
                       configOptions (configContent cu)),
                 Inr succeeded)
       \<and> createColorVisitor e parentName name name (ObjectExpression props) =
           ObjectExpression
             (props @ [ObjectProperty (Identifier name) (StringLiteral (''var(--'' @ name @ '')''))])"
proof -
  have cssName: "createdCssVarName e n parentName = name"
    using assms(4,5) by (cases parentName) (auto simp: createdCssVarName_def truthy_def)
  have visitor: "createColorVisitor e parentName name name (ObjectExpression props) =
           ObjectExpression
             (props @ [ObjectProperty (Identifier name) (StringLiteral (''var(--'' @ name @ '')''))])"
    using assms(4)
    by (cases parentName) (auto simp: createColorVisitor_def addTailwindRootColor_def varReference_def)
  have "createTailwindColorVariable e files cu v n parentName =
           Some ((files(cssPath cu \<mapsto>
                     postcssStringify e
                       (appendToScope ''.dark'' (Declaration (''--'' @ name) v)
                          (appendToScope '':root'' (Declaration (''--'' @ name) v) sheet))))
                   (configPath cu \<mapsto>
                     generate e
                       (ast\<lparr>colorsValues :=
                              map (createColorVisitor e parentName name name) (colorsValues ast)\<rparr>)
                       configOptions (configContent cu)),
                 Inr succeeded)"
    using assms(2,3) cssName
    by (simp add: createTailwindColorVariable_def assms(5) [symmetric] Let_def
        addTailwindCssVariable_appends writeFileSync_def traverseColors_def)
  with assms(1) visitor show ?thesis
    by (simp add: updateTailwindColorConfig_def truthy_def)
qed

theorem create_root_color_witness:
  "updateTailwindColorConfig (sampleEnv [sampleConfig] [sampleSheet]) (sampleFiles sampleConfig sampleSheet)
      ''/app'' [] ''#123456'' ''accent'' (Some Dark) None =
     Some ([''/app/globals.css'' \<mapsto>
              printCss
                [AtRule ''@layer base''
                   [Rule '':root'' [Declaration ''--brand'' ''#111111'', Declaration ''--brand-accent'' ''#ff0000'',
                                    Declaration ''--accent'' ''#123456''],
                    Rule ''.dark'' [Declaration ''--brand'' ''#eeeeee'', Declaration ''--brand-accent'' ''#00ff00'',
                                    Declaration ''--accent'' ''#123456'']],
                 Rule ''body'' [Declaration ''color'' ''var(--brand)'']],
            ''/app/tailwind.config.ts'' \<mapsto>
              printFile (sampleConfig\<lparr>colorsValues :=
                [ObjectExpression
                   [ObjectProperty (Identifier ''white'') (StringLiteral ''#ffffff''),
                    ObjectProperty (Identifier ''brand'')
                      (ObjectExpression
                         [ObjectProperty (Identifier ''accent'') (StringLiteral ''var(--brand-accent)'')]),
                    ObjectProperty (Identifier ''accent'') (StringLiteral ''var(--accent)'')]]\<rparr>)],
           Inr succeeded)"
  using create_root_color [of "sampleEnv [sampleConfig] [sampleSheet]" "sampleFiles sampleConfig sampleSheet"
      "''/app''" "sampleUpdate sampleConfig sampleSheet" sampleSheet sampleConfig None "''accent''" "''accent''"
      "''#123456''" "Some Dark" "[]"]
  by (simp add: sampleEnv_def sampleFiles_def sampleUpdate_def sampleConfig_def sampleColors_def
      sampleSheet_def createColorVisitor_def addTailwindRootColor_def varReference_def)



section \<open>Properties of rename and recolour\<close>

lemma updateDeclaration_same_name:
  "updateDeclaration e n n color su p v =
     Inr ([if su then recolourChild (''--'' @ n) color (Declaration p v) else Declaration p v], [])"
  by (simp add: updateDeclaration_def)

lemma walkDecls_same_name:
  "walkDecls (updateDeclaration e n n color su) visited pending =
     Some (Inr (visited @ (if su then map (recolourChild (''--'' @ n) color) pending else pending)))"
proof (induction pending arbitrary: visited)
  case Nil
  show ?case by (subst walkDecls.simps) simp
next
  case (Cons child others)
  show ?case
  proof (cases child)
    case (Declaration p v)
    then show ?thesis
      by (subst walkDecls.simps) (simp add: updateDeclaration_same_name Cons.IH)
  next
    case (Comment t)
    then show ?thesis
      by (subst walkDecls.simps) (simp add: Cons.IH)
  qed
qed

lemma shouldUpdate_scopeSelected:
  "selector = '':root'' \<or> selector = ''.dark'' \<Longrightarrow>
   shouldUpdate color theme (selector = ''.dark'') = scopeSelected color theme selector"
  by (auto simp: shouldUpdate_def scopeSelected_def truthy_def)

lemma scopeSelected_scope:
  "scopeSelected color theme selector \<Longrightarrow> selector = '':root'' \<or> selector = ''.dark''"
  by (auto simp: scopeSelected_def)

lemma walkRules_same_name:
  "walkRules (\<lambda>s. s = '':root'' \<or> s = ''.dark'')
     (\<lambda>selector children.
        walkDecls (updateDeclaration e n n color (shouldUpdate color theme (selector = ''.dark'')))
          [] children) nodes =
   Some (Inr (recolourScopes (''--'' @ n) color theme nodes))"
proof (induction "''--'' @ n" color theme nodes rule: recolourScopes.induct)
  case (2 color theme selector children nodes)
  then show ?case
    using scopeSelected_scope [of color theme selector]
    by (auto simp: walkDecls_same_name shouldUpdate_scopeSelected)
qed simp_all

lemma updateTailwindCssVariable_same_name:
  "postcssParse e css = Inr sheet \<Longrightarrow>
   updateTailwindCssVariable e css n n color theme =
     Some (Inr (postcssStringify e (recolourScopes (''--'' @ n) color theme sheet)))"
  by (simp add: updateTailwindCssVariable_def processCss_def walkRules_same_name)

lemma recolourScopes_no_color: "recolourScopes property [] theme nodes = nodes"
  by (induction property "[] :: string" theme nodes rule: recolourScopes.induct)
     (simp_all add: scopeSelected_def)

lemma collect_total: "collect (map (\<lambda>x. Inr (f x)) xs) = Inr (map f xs)"
  by (induction xs) simp_all

lemma updateNestedProperty_same_name:
  "updateNestedProperty e parentKey k k newCssVarName nestedProp =
     (setChildReference k (varReference (if k = ''DEFAULT'' then parentKey else newCssVarName)) nestedProp,
      False, isStringChild k nestedProp)"
  by (cases "(k, nestedProp)" rule: isStringChild.cases)
     (auto simp: updateNestedProperty_def split: node.splits)

lemma updateColorProp_same_name:
  assumes "truthy k"
  shows "updateColorProp e parentKey (Some k) k newCssVarName colorProp =
     Inr (setGroupReference parentKey k
            (varReference (if k = ''DEFAULT'' then parentKey else newCssVarName)) colorProp,
          False, hasStringChild parentKey k colorProp)"
  using assms
  by (cases "(parentKey, k, colorProp)" rule: hasStringChild.cases)
     (auto simp: updateColorProp_def updateNestedProperty_same_name list_ex_iff comp_def
           split: node.splits)

lemma updateColorVisitor_same_name:
  assumes "truthy k"
  shows "updateColorVisitor e parentKey (Some k) k newCssVarName colorObj =
     Inr (setReference parentKey k
            (varReference (if k = ''DEFAULT'' then parentKey else newCssVarName)) colorObj,
          False, colorsHaveStringChild parentKey k colorObj)"
proof -
  have step: "updateColorProp e parentKey (Some k) k newCssVarName =
      (\<lambda>colorProp. Inr (setGroupReference parentKey k
            (varReference (if k = ''DEFAULT'' then parentKey else newCssVarName)) colorProp,
          False, hasStringChild parentKey k colorProp))"
    using assms by (intro ext) (rule updateColorProp_same_name)
  show ?thesis
    by (cases colorObj)
       (simp_all add: updateColorVisitor_def step collect_total list_ex_iff comp_def)
qed

lemma updateConfigAst_same_name:
  assumes "truthy k"
  shows "updateConfigAst e parentKey (Some k) k newCssVarName ast =
     Inr (ast\<lparr>colorsValues :=
                map (setReference parentKey k
                       (varReference (if k = ''DEFAULT'' then parentKey else newCssVarName)))
                    (colorsValues ast)\<rparr>,
          False, list_ex (colorsHaveStringChild parentKey k) (colorsValues ast))"
proof -
  have step: "updateColorVisitor e parentKey (Some k) k newCssVarName =
      (\<lambda>colorObj. Inr (setReference parentKey k
            (varReference (if k = ''DEFAULT'' then parentKey else newCssVarName)) colorObj,
          False, colorsHaveStringChild parentKey k colorObj))"
    using assms by (intro ext) (rule updateColorVisitor_same_name)
  show ?thesis
    by (simp add: updateConfigAst_def step collect_total list_ex_iff comp_def)
qed

lemma String_split_no_separator: "sep \<notin> set s \<Longrightarrow> String_split sep s = [s]"
  by (induction s) auto

lemma String_split_at_separator:
  "sep \<notin> set a \<Longrightarrow> String_split sep (a @ sep # b) = a # String_split sep b"
  by (induction a) auto

lemma updateColorProp_root_same_name:
  "updateColorProp e parentKey None parentKey newCssVarName =
     (\<lambda>colorProp. Inr (colorProp, False, False))"
  by (intro ext) (auto simp: updateColorProp_def split: node.splits)

lemma updateConfigAst_root_same_name:
  "updateConfigAst e parentKey None parentKey newCssVarName ast = Inr (ast, False, False)"
proof -
  have visitor: "updateColorVisitor e parentKey None parentKey newCssVarName =
      (\<lambda>colorObj. Inr (colorObj, False, False))"
    by (intro ext)
       (auto simp: updateColorVisitor_def updateColorProp_root_same_name collect_total
             list_ex_iff comp_def split: node.splits)
  show ?thesis
    by (simp add: updateConfigAst_def visitor collect_total list_ex_iff comp_def)
qed

lemma rename_root_to_same_name:
  assumes "CHR ''-'' \<notin> set parentKey" and "truthy parentKey"
    and "postcssParse e (cssContent cu) = Inr sheet"
    and "parse e (configContent cu) = Inr ast"
  shows "updateTailwindColorVariable e files cu parentKey [] parentKey theme =
           Some (files(cssPath cu \<mapsto> postcssStringify e sheet), Inr succeeded)"
proof -
  have split: "String_split (CHR ''-'') parentKey = [parentKey]"
    using assms(1) by (rule String_split_no_separator)
  have names: "newCssVarNameOf parentKey None parentKey parentKey = (parentKey, parentKey)"
    by (simp add: newCssVarNameOf_def)
  show ?thesis
    using assms(2,3,4)
    by (simp add: updateTailwindColorVariable_def split names
        updateTailwindCssVariable_same_name recolourScopes_no_color
        updateTailwindConfigFile_def updateConfigAst_root_same_name writeFileSync_def Let_def)
qed


text \<open>
  C2, as amended. A rename to the same name with no colour, when both files parse. The
  result is success, and the stylesheet is written back as the toolkit prints its
  unchanged tree. For \<open>parentKey-keyName\<close> renamed to \<open>keyName\<close>: the configuration
  keeps every key; where a group \<open>parentKey\<close> has a child \<open>keyName\<close> with a string
  value, that value is set to the reference to the original property (to
  \<open>var(--parentKey)\<close> for a DEFAULT child) and the configuration file is written with
  the printed tree; where there is no such child the configuration file is not written.
  For a root colour \<open>parentKey\<close> renamed to \<open>parentKey\<close> the configuration file is not
  written.
\<close>

theorem rename_to_same_name:
  assumes "truthy parentKey"
    and "postcssParse e (cssContent cu) = Inr sheet"
    and "parse e (configContent cu) = Inr ast"
  shows "(String_split (CHR ''-'') originalName = parentKey # keyName # rest \<and> truthy keyName \<longrightarrow>
          updateTailwindColorVariable e files cu originalName [] keyName theme =
            Some (if list_ex (colorsHaveStringChild parentKey keyName) (colorsValues ast)
                  then (files(cssPath cu \<mapsto> postcssStringify e sheet))
                         (configPath cu \<mapsto>
                            generate e
                              (ast\<lparr>colorsValues :=
                                     map (setReference parentKey keyName
                                            (varReference (if keyName = ''DEFAULT'' then parentKey
                                                           else originalName)))
                                         (colorsValues ast)\<rparr>)
                              configOptions (configContent cu))
                  else files(cssPath cu \<mapsto> postcssStringify e sheet),
                  Inr succeeded))
       \<and> (CHR ''-'' \<notin> set parentKey \<longrightarrow>
          updateTailwindColorVariable e files cu parentKey [] parentKey theme =
            Some (files(cssPath cu \<mapsto> postcssStringify e sheet), Inr succeeded))"
proof (intro conjI impI)
  assume child: "String_split (CHR ''-'') originalName = parentKey # keyName # rest \<and> truthy keyName"
  then have names: "newCssVarNameOf parentKey (Some keyName) originalName keyName =
                 (if keyName = ''DEFAULT'' then (parentKey, parentKey) else (originalName, originalName))"
    by (simp add: newCssVarNameOf_def)
  show "updateTailwindColorVariable e files cu originalName [] keyName theme =
            Some (if list_ex (colorsHaveStringChild parentKey keyName) (colorsValues ast)
                  then (files(cssPath cu \<mapsto> postcssStringify e sheet))
                         (configPath cu \<mapsto>
                            generate e
                              (ast\<lparr>colorsValues :=
                                     map (setReference parentKey keyName
                                            (varReference (if keyName = ''DEFAULT'' then parentKey
                                                           else originalName)))
                                         (colorsValues ast)\<rparr>)
                              configOptions (configContent cu))
                  else files(cssPath cu \<mapsto> postcssStringify e sheet),
                  Inr succeeded)"
  proof (cases "keyName = ''DEFAULT''")
    case True
    with assms child names show ?thesis
      by (simp add: updateTailwindColorVariable_def updateTailwindCssVariable_same_name
          recolourScopes_no_color updateTailwindConfigFile_def updateConfigAst_same_name
          writeFileSync_def Let_def)
  next
    case False
    with assms child names show ?thesis
      by (simp add: updateTailwindColorVariable_def updateTailwindCssVariable_same_name
          recolourScopes_no_color updateTailwindConfigFile_def updateConfigAst_same_name
          writeFileSync_def Let_def)
  qed
next
  assume "CHR ''-'' \<notin> set parentKey"
  then show "updateTailwindColorVariable e files cu parentKey [] parentKey theme =
            Some (files(cssPath cu \<mapsto> postcssStringify e sheet), Inr succeeded)"
    using assms by (rule rename_root_to_same_name)
qed

theorem rename_to_same_name_witness:
  "updateTailwindColorVariable (sampleEnv [sampleConfig] [sampleSheet])
     (sampleFiles sampleConfig sampleSheet) (sampleUpdate sampleConfig sampleSheet)
     ''brand-accent'' [] ''accent'' (Some Light) =
   Some ([''/app/globals.css'' \<mapsto> printCss sampleSheet,
          ''/app/tailwind.config.ts'' \<mapsto> printFile sampleConfig],
         Inr succeeded)
   \<and> updateTailwindColorVariable (sampleEnv [sampleConfig] [sampleSheet])
     (sampleFiles sampleConfig sampleSheet) (sampleUpdate sampleConfig sampleSheet)
     ''brand'' [] ''brand'' (Some Light) =
   Some ([''/app/tailwind.config.ts'' \<mapsto> printFile sampleConfig,
          ''/app/globals.css'' \<mapsto> printCss sampleSheet],
         Inr succeeded)"
  using rename_to_same_name [of "''brand''" "sampleEnv [sampleConfig] [sampleSheet]"
      "sampleUpdate sampleConfig sampleSheet" sampleSheet sampleConfig "''brand-accent''"
      "''accent''" "[]" "sampleFiles sampleConfig sampleSheet" "Some Light"]
  by (simp add: sampleEnv_def sampleFiles_def sampleUpdate_def sampleConfig_def sampleColors_def
      truthy_def varReference_def)

text \<open>
  C2 as stated fails: the configuration \<open>colors: {brand: {accent: '#ff0000'}}\<close> is
  renamed from \<open>brand-accent\<close> to \<open>accent\<close> with no colour. The call succeeds, and
  the configuration file is rewritten with the value \<open>var(--brand-accent)\<close>: its text is
  no longer the text before the call.
\<close>

theorem rename_to_same_name_rewrites_literal:
  "updateTailwindColorVariable (sampleEnv [literalConfig] [sampleSheet])
     (sampleFiles literalConfig sampleSheet) (sampleUpdate literalConfig sampleSheet)
     ''brand-accent'' [] ''accent'' None =
   Some ([''/app/globals.css'' \<mapsto> printCss sampleSheet,
          ''/app/tailwind.config.ts'' \<mapsto>
            printFile (literalConfig\<lparr>colorsValues :=
              [ObjectExpression
                 [ObjectProperty (Identifier ''brand'')
                    (ObjectExpression
                       [ObjectProperty (Identifier ''accent'')
                          (StringLiteral ''var(--brand-accent)'')])]]\<rparr>)],
         Inr succeeded)
   \<and> printFile (literalConfig\<lparr>colorsValues :=
              [ObjectExpression
                 [ObjectProperty (Identifier ''brand'')
                    (ObjectExpression
                       [ObjectProperty (Identifier ''accent'')
                          (StringLiteral ''var(--brand-accent)'')])]]\<rparr>)
       \<noteq> printFile literalConfig"
  by (simp add: updateTailwindColorVariable_def newCssVarNameOf_def
      updateTailwindCssVariable_same_name recolourScopes_no_color
      updateTailwindConfigFile_def updateConfigAst_def updateColorVisitor_def updateColorProp_def
      updateNestedProperty_def writeFileSync_def configOptions_def
      sampleEnv_def sampleFiles_def sampleUpdate_def literalConfig_def printFile_def
      truthy_def varReference_def)

text \<open>
  C4, as amended. For a group name \<open>g\<close> with no hyphen, the original name
  \<open>g-DEFAULT\<close> is split into \<open>g\<close> and \<open>DEFAULT\<close>; the property looked for in the
  stylesheet and the new property name are both \<open>g\<close>, whatever the new name; the
  stylesheet keeps every property name, and the declarations \<open>--g\<close> of the scopes that
  the theme selects take the new colour; the renamed DEFAULT child of the configuration
  refers to \<open>var(--g)\<close>. The last part is the whole operation: the stylesheet it
  writes is that recoloured stylesheet, before it turns to the configuration file.
\<close>

theorem rename_default_variant:
  assumes "CHR ''-'' \<notin> set g" and "truthy g" and "postcssParse e (cssContent cu) = Inr sheet"
  shows "String_split (CHR ''-'') (g @ ''-DEFAULT'') = [g, ''DEFAULT'']
       \<and> newCssVarNameOf g (Some ''DEFAULT'') (g @ ''-DEFAULT'') newName = (g, g)
       \<and> updateTailwindCssVariable e (cssContent cu) g g newColor theme =
           Some (Inr (postcssStringify e (recolourScopes (''--'' @ g) newColor theme sheet)))
       \<and> updateNestedProperty e g ''DEFAULT'' newName g
             (ObjectProperty (Identifier ''DEFAULT'') (StringLiteral old)) =
           (ObjectProperty
              (Identifier (if newName \<noteq> ''DEFAULT'' then toCamelCase e newName else ''DEFAULT''))
              (StringLiteral (varReference g)),
            newName \<noteq> ''DEFAULT'', True)
       \<and> updateTailwindColorVariable e files cu (g @ ''-DEFAULT'') newColor newName theme =
           (let files1 = files(cssPath cu \<mapsto>
                           postcssStringify e (recolourScopes (''--'' @ g) newColor theme sheet))
            in case updateTailwindConfigFile e (configContent cu) g (Some ''DEFAULT'') newName g of
                 Inl err \<Rightarrow> Some (files1, Inl err)
               | Inr r \<Rightarrow>
                   if keyUpdated r \<or> valueUpdated r
                   then (let files2 = files1(configPath cu \<mapsto> outputCode r)
                         in if keyUpdated r
                            then (case updateClassReferences e files2 (dirname e (configPath cu))
                                         [\<lparr>oldClass = g @ ''-DEFAULT'', newClass = g @ ''-'' @ newName\<rparr>] of
                                    (files3, Inl err) \<Rightarrow> Some (files3, Inl err)
                                  | (files3, Inr u) \<Rightarrow> Some (files3, Inr succeeded))
                            else Some (files2, Inr succeeded))
                   else Some (files1, Inr succeeded))"
proof -
  have "String_split (CHR ''-'') (g @ CHR ''-'' # ''DEFAULT'') = g # String_split (CHR ''-'') ''DEFAULT''"
    using assms(1) by (rule String_split_at_separator)
  then have split: "String_split (CHR ''-'') (g @ ''-DEFAULT'') = [g, ''DEFAULT'']"
    by (simp add: String_split_no_separator)
  have names: "newCssVarNameOf g (Some ''DEFAULT'') (g @ ''-DEFAULT'') newName = (g, g)"
    by (simp add: newCssVarNameOf_def truthy_def)
  have css: "updateTailwindCssVariable e (cssContent cu) g g newColor theme =
           Some (Inr (postcssStringify e (recolourScopes (''--'' @ g) newColor theme sheet)))"
    using assms(3) by (rule updateTailwindCssVariable_same_name)
  have child: "updateNestedProperty e g ''DEFAULT'' newName g
             (ObjectProperty (Identifier ''DEFAULT'') (StringLiteral old)) =
           (ObjectProperty
              (Identifier (if newName \<noteq> ''DEFAULT'' then toCamelCase e newName else ''DEFAULT''))
              (StringLiteral (varReference g)),
            newName \<noteq> ''DEFAULT'', True)"
    by (simp add: updateNestedProperty_def)
  have operation: "updateTailwindColorVariable e files cu (g @ ''-DEFAULT'') newColor newName theme =
           (let files1 = files(cssPath cu \<mapsto>
                           postcssStringify e (recolourScopes (''--'' @ g) newColor theme sheet))
            in case updateTailwindConfigFile e (configContent cu) g (Some ''DEFAULT'') newName g of
                 Inl err \<Rightarrow> Some (files1, Inl err)
               | Inr r \<Rightarrow>
                   if keyUpdated r \<or> valueUpdated r
                   then (let files2 = files1(configPath cu \<mapsto> outputCode r)
                         in if keyUpdated r
                            then (case updateClassReferences e files2 (dirname e (configPath cu))
                                         [\<lparr>oldClass = g @ ''-DEFAULT'', newClass = g @ ''-'' @ newName\<rparr>] of
                                    (files3, Inl err) \<Rightarrow> Some (files3, Inl err)
                                  | (files3, Inr u) \<Rightarrow> Some (files3, Inr succeeded))
                            else Some (files2, Inr succeeded))
                   else Some (files1, Inr succeeded))"
    using assms(2) css
    by (cases "updateTailwindConfigFile e (configContent cu) g (Some ''DEFAULT'') newName g")
       (simp_all add: updateTailwindColorVariable_def split names writeFileSync_def Let_def
             del: String_split.simps)
  from split names css child operation show ?thesis by blast
qed

theorem rename_default_variant_witness:
  "String_split (CHR ''-'') ''brand-DEFAULT'' = [''brand'', ''DEFAULT'']
   \<and> newCssVarNameOf ''brand'' (Some ''DEFAULT'') ''brand-DEFAULT'' ''primary'' = (''brand'', ''brand'')
   \<and> updateNestedProperty (sampleEnv [defaultConfig] [sampleSheet]) ''brand'' ''DEFAULT'' ''primary'' ''brand''
        (ObjectProperty (Identifier ''DEFAULT'') (StringLiteral ''var(--brand)'')) =
      (ObjectProperty (Identifier ''primary'') (StringLiteral ''var(--brand)''), True, True)
   \<and> updateTailwindColorVariable (sampleEnv [defaultConfig] [sampleSheet])
        (sampleFiles defaultConfig sampleSheet) (sampleUpdate defaultConfig sampleSheet)
        ''brand-DEFAULT'' ''#123456'' ''primary'' (Some Dark) =
      Some ([''/app/globals.css'' \<mapsto>
               printCss
                 [AtRule ''@layer base''
                    [Rule '':root'' [Declaration ''--brand'' ''#111111'', Declaration ''--brand-accent'' ''#ff0000''],
                     Rule ''.dark'' [Declaration ''--brand'' ''#123456'', Declaration ''--brand-accent'' ''#00ff00'']],
                  Rule ''body'' [Declaration ''color'' ''var(--brand)'']],
             ''/app/tailwind.config.ts'' \<mapsto>
               printFile (defaultConfig\<lparr>colorsValues :=
                 [ObjectExpression
                    [ObjectProperty (Identifier ''brand'')
                       (ObjectExpression
                          [ObjectProperty (Identifier ''primary'') (StringLiteral ''var(--brand)''),
                           ObjectProperty (Identifier ''accent'') (StringLiteral ''var(--brand-accent)'')])]]\<rparr>)],
            Inr succeeded)"
  using rename_default_variant [of "''brand''" "sampleEnv [defaultConfig] [sampleSheet]"
      "sampleUpdate defaultConfig sampleSheet" sampleSheet "''primary''" "''#123456''" "Some Dark"
      "''var(--brand)''" "sampleFiles defaultConfig sampleSheet"]
  by (simp add: sampleEnv_def sampleSheet_def sampleUpdate_def sampleFiles_def defaultConfig_def
      truthy_def scopeSelected_def varReference_def printFile_def
      updateTailwindConfigFile_def updateConfigAst_def updateColorVisitor_def updateColorProp_def
      updateNestedProperty_def updateClassReferences_def configOptions_def)

text \<open>
  C4 as stated fails: renaming the DEFAULT variant of \<open>brand\<close> to \<open>primary\<close> leaves
  the stylesheet with \<open>--brand\<close> (and the configuration with
  \<open>primary: 'var(--brand)'\<close>), while renaming \<open>brand\<close> itself to \<open>primary\<close> renames the
  properties to \<open>--primary\<close> and \<open>--primary-accent\<close>.
\<close>

theorem rename_default_keeps_property:
  "updateTailwindColorVariable (sampleEnv [defaultConfig] [sampleSheet])
     (sampleFiles defaultConfig sampleSheet) (sampleUpdate defaultConfig sampleSheet)
     ''brand-DEFAULT'' [] ''primary'' None =
   Some ([''/app/globals.css'' \<mapsto> printCss sampleSheet,
          ''/app/tailwind.config.ts'' \<mapsto>
            printFile (defaultConfig\<lparr>colorsValues :=
              [ObjectExpression
                 [ObjectProperty (Identifier ''brand'')
                    (ObjectExpression
                       [ObjectProperty (Identifier ''primary'') (StringLiteral ''var(--brand)''),
                        ObjectProperty (Identifier ''accent'') (StringLiteral ''var(--brand-accent)'')])]]\<rparr>)],
         Inr succeeded)
   \<and> updateTailwindColorVariable (sampleEnv [defaultConfig] [sampleSheet])
     (sampleFiles defaultConfig sampleSheet) (sampleUpdate defaultConfig sampleSheet)
     ''brand'' [] ''primary'' None =
   Some ([''/app/globals.css'' \<mapsto>
            printCss
              [AtRule ''@layer base''
                 [Rule '':root'' [Declaration ''--primary'' ''#111111'', Declaration ''--primary-accent'' ''#ff0000''],
                  Rule ''.dark'' [Declaration ''--primary'' ''#eeeeee'', Declaration ''--primary-accent'' ''#00ff00'']],
               Rule ''body'' [Declaration ''color'' ''var(--brand)'']],
          ''/app/tailwind.config.ts'' \<mapsto>
            printFile (defaultConfig\<lparr>colorsValues :=
              [ObjectExpression
                 [ObjectProperty (Identifier ''primary'')
                    (ObjectExpression
                       [ObjectProperty (Identifier ''DEFAULT'') (StringLiteral ''var(--primary)''),
                        ObjectProperty (Identifier ''accent'') (StringLiteral ''var(--primary-accent)'')])]]\<rparr>)],
         Inr succeeded)"
  by (simp add: updateTailwindColorVariable_def newCssVarNameOf_def
      updateTailwindCssVariable_def processCss_def walkDecls.simps updateDeclaration_def
      shouldUpdate_def RegExp_test_anchored_def RegExp_replace_global_def plainPattern_def
      isSyntaxCharacter_def String_replace_def
      updateTailwindConfigFile_def updateConfigAst_def updateColorVisitor_def updateColorProp_def
      updateNestedProperty_def renameNestedReference_def
      updateClassReferences_def writeFileSync_def configOptions_def
      sampleEnv_def sampleFiles_def sampleUpdate_def defaultConfig_def sampleSheet_def printFile_def
      truthy_def varReference_def)


text \<open>
  C3, as amended. For a rename of a target other than a DEFAULT variant, to a new name
  that is already in camel case: when the name changes, the new name of the custom
  property is the name that creation gives (the name in camel case for a root colour,
  \<open>parentKey-\<close> and the name in camel case for a child); when the name does not
  change, it is the original name. For a DEFAULT variant it is \<open>parentKey\<close>, whatever
  the new name.
\<close>

theorem renamed_property_name:
  assumes "keyName \<noteq> Some ''DEFAULT''" and "truthy parentKey"
    and "toCamelCase e newName = newName"
  shows "fst (newCssVarNameOf parentKey keyName originalName newName) =
           (if \<not> truthyOpt keyName
            then (if newName \<noteq> parentKey then createdCssVarName e newName None else originalName)
            else (if Some newName \<noteq> keyName then createdCssVarName e newName (Some parentKey)
                  else originalName))
       \<and> fst (newCssVarNameOf parentKey (Some ''DEFAULT'') originalName newName) = parentKey"
  using assms by (simp add: newCssVarNameOf_def createdCssVarName_def truthy_def)

theorem renamed_property_name_witness:
  "fst (newCssVarNameOf ''brand'' (Some ''accent'') ''brand-accent'' ''accent2'') =
     createdCssVarName (sampleEnv [] []) ''accent2'' (Some ''brand'')
   \<and> fst (newCssVarNameOf ''brand'' (Some ''DEFAULT'') ''brand-accent'' ''accent2'') = ''brand''"
  using renamed_property_name [of "Some ''accent''" "''brand''" "sampleEnv [] []" "''accent2''"
      "''brand-accent''"]
  by (simp add: sampleEnv_def truthy_def)

text \<open>
  C3 as stated fails: renaming the DEFAULT variant of \<open>brand\<close> to \<open>primary\<close> changes
  the name, and the new property name is \<open>brand\<close>, not the name \<open>brand-primary\<close> that
  creation gives to a child \<open>primary\<close> of \<open>brand\<close>.
\<close>

theorem renamed_default_is_not_created_name:
  "fst (newCssVarNameOf ''brand'' (Some ''DEFAULT'') ''brand-DEFAULT'' ''primary'') = ''brand''
   \<and> createdCssVarName (sampleEnv [] []) ''primary'' (Some ''brand'') = ''brand-primary''"
  by (simp add: newCssVarNameOf_def createdCssVarName_def sampleEnv_def truthy_def)

text \<open>
  A rename that never settles. Renaming the root colour \<open>brand\<close> to \<open>brand-x\<close>
  appends \<open>--brand-x\<close> to the rule; the walk visits the appended declaration, whose
  property now starts with \<open>--brand-\<close>, and replaces it by \<open>--brand-x-x\<close>, and so on:
  every declaration the callback appends is one it rewrites again.
\<close>

lemma updateDeclaration_extension:
  "\<exists>kept appended.
     updateDeclaration e ''brand'' ''brand-x'' newColor su p v = Inr (kept, appended)
     \<and> (prefix ''--brand-'' p \<longrightarrow> list_ex extendsBrand appended)"
proof (cases "prefix ''--brand-'' p")
  case True
  then obtain t where p: "p = ''--brand-'' @ t" by (auto simp: prefix_def)
  show ?thesis
    unfolding p
    by (simp add: updateDeclaration_def RegExp_test_anchored_def plainPattern_def
        isSyntaxCharacter_def String_replace_def truthy_def)
next
  case False
  then show ?thesis
    by (simp add: updateDeclaration_def RegExp_test_anchored_def plainPattern_def
        isSyntaxCharacter_def truthy_def Let_def)
qed

lemma walkDecls_extension_never_settles:
  assumes settled: "walkDecls callback visited pending = Some outcome"
  shows "callback = updateDeclaration e ''brand'' ''brand-x'' newColor su \<longrightarrow>
         \<not> list_ex extendsBrand pending"
proof (rule walkDecls.raw_induct
    [where P = "\<lambda>cb vis pend out.
       cb = updateDeclaration e ''brand'' ''brand-x'' newColor su \<longrightarrow> \<not> list_ex extendsBrand pend",
     OF _ settled], goal_cases)
  case (1 walk cb vis pend out)
  show ?case
  proof (intro impI)
    assume cb: "cb = updateDeclaration e ''brand'' ''brand-x'' newColor su"
    show "\<not> list_ex extendsBrand pend"
    proof (cases pend)
      case Nil
      then show ?thesis by simp
    next
      case (Cons child others)
      show ?thesis
      proof (cases child)
        case (Comment t)
        with 1(2) Cons have "walk cb (vis @ [Comment t]) others = Some out" by simp
        from 1(1) [OF this] cb Cons Comment show ?thesis by simp
      next
        case (Declaration p v)
        from updateDeclaration_extension [of e newColor su p v]
        obtain kept appended where
          step: "updateDeclaration e ''brand'' ''brand-x'' newColor su p v = Inr (kept, appended)"
          and ext: "prefix ''--brand-'' p \<longrightarrow> list_ex extendsBrand appended"
          by blast
        with 1(2) Cons Declaration cb
        have "walk cb (vis @ kept) (others @ appended) = Some out"
          by simp
        from 1(1) [OF this] cb have "\<not> list_ex extendsBrand (others @ appended)" by simp
        with ext Cons Declaration show ?thesis by auto
      qed
    qed
  qed
qed

lemma rename_to_own_extension_never_settles:
  assumes "postcssParse e css = Inr [Rule '':root'' [Declaration ''--brand'' v]]"
  shows "updateTailwindCssVariable e css ''brand'' ''brand-x'' newColor theme = None"
proof -
  let ?callback = "updateDeclaration e ''brand'' ''brand-x'' newColor (shouldUpdate newColor theme False)"
  have "walkDecls ?callback [] [Declaration ''--brand-x'' (if shouldUpdate newColor theme False then newColor else v)] = None"
  proof (rule ccontr)
    assume "walkDecls ?callback [] [Declaration ''--brand-x'' (if shouldUpdate newColor theme False then newColor else v)] \<noteq> None"
    then obtain outcome where
      "walkDecls ?callback [] [Declaration ''--brand-x'' (if shouldUpdate newColor theme False then newColor else v)] = Some outcome"
      by blast
    from walkDecls_extension_never_settles [OF this, of e newColor "shouldUpdate newColor theme False"]
    show False by simp
  qed
  then have "walkDecls ?callback [] [Declaration ''--brand'' v] = None"
    by (subst walkDecls.simps)
       (simp add: updateDeclaration_def RegExp_test_anchored_def plainPattern_def
          isSyntaxCharacter_def truthy_def)
  with assms show ?thesis
    by (simp add: updateTailwindCssVariable_def processCss_def)
qed

lemma rename_never_settles:
  assumes "postcssParse e (cssContent cu) = Inr [Rule '':root'' [Declaration ''--brand'' v]]"
  shows "updateTailwindColorVariable e files cu ''brand'' newColor ''brand-x'' theme = None"
  using rename_to_own_extension_never_settles [OF assms, of newColor theme]
  by (simp add: updateTailwindColorVariable_def newCssVarNameOf_def truthy_def)

section \<open>References in the configuration tree\<close>

lemma getSubstitution_hyphens:
  "getSubstitution matched pre post (''--'' @ y) = ''--'' @ getSubstitution matched pre post y"
  by (cases y) simp_all

lemma replaceAllPlain_match:
  "pat \<noteq> [] \<Longrightarrow> prefix pat (c # cs) \<Longrightarrow>
   replaceAllPlain pat rep seen (c # cs) =
     getSubstitution pat seen (drop (length pat - 1) cs) rep
       @ replaceAllPlain pat rep (seen @ pat) (drop (length pat - 1) cs)"
  by simp

lemma replaceAllPlain_no_match:
  "\<not> prefix pat (c # cs) \<Longrightarrow>
   replaceAllPlain pat rep seen (c # cs) = c # replaceAllPlain pat rep (seen @ [c]) cs"
  by simp

lemma replaceAllPlain_starts_with_hyphens:
  "\<exists>r. replaceAllPlain (''--'' @ x) (''--'' @ y) seen (''--'' @ t) = ''--'' @ r"
proof (cases "prefix (''--'' @ x) (''--'' @ t)")
  case True
  then have "prefix (''--'' @ x) (CHR ''-'' # (''-'' @ t))" by simp
  from replaceAllPlain_match [OF _ this, of "''--'' @ y" seen]
  show ?thesis
    unfolding getSubstitution_hyphens by simp
next
  case False
  then have "\<not> prefix (''--'' @ x) (CHR ''-'' # (''-'' @ t))" by simp
  from replaceAllPlain_no_match [OF this, of "''--'' @ y" seen]
  have first: "replaceAllPlain (''--'' @ x) (''--'' @ y) seen (''--'' @ t) =
      CHR ''-'' # replaceAllPlain (''--'' @ x) (''--'' @ y) (seen @ ''-'') (CHR ''-'' # t)"
    by simp
  show ?thesis
  proof (cases "prefix (''--'' @ x) (CHR ''-'' # t)")
    case True
    from replaceAllPlain_match [OF _ this, of "''--'' @ y" "seen @ ''-''"] first
    show ?thesis
      unfolding getSubstitution_hyphens by simp
  next
    case False
    from replaceAllPlain_no_match [OF this, of "''--'' @ y" "seen @ ''-''"] first
    show ?thesis by simp
  qed
qed

lemma prefix_without_last:
  "prefix p (u @ [z]) \<Longrightarrow> z \<notin> set p \<Longrightarrow> prefix p u"
  by auto

lemma replaceAllPlain_ends_with_paren:
  assumes "CHR '')'' \<notin> set pat" and "pat \<noteq> []"
  shows "\<exists>r. replaceAllPlain pat rep seen (t @ '')'') = r @ '')''"
proof (induction "length t" arbitrary: t seen rule: less_induct)
  case less
  show ?case
  proof (cases t)
    case Nil
    have "\<not> prefix pat '')''"
      using assms by (cases pat) auto
    then show ?thesis
      using Nil by simp
  next
    case (Cons c cs)
    show ?thesis
    proof (cases "prefix pat (c # (cs @ '')''))")
      case True
      then have "prefix pat ((c # cs) @ '')'')" by simp
      then have "prefix pat (c # cs)"
        using assms(1) by (rule prefix_without_last)
      then obtain r' where r': "c # cs = pat @ r'"
        by (auto simp: prefix_def)
      then have len: "length r' < length t"
        using assms(2) Cons by (cases pat) auto
      from r' assms(2) have "cs = tl pat @ r'"
        by (cases pat) auto
      then have dropped: "drop (length pat - 1) (cs @ '')'') = r' @ '')''"
        by simp
      from less(1) [OF len, of "seen @ pat"]
      obtain r where r: "replaceAllPlain pat rep (seen @ pat) (r' @ '')'') = r @ '')''"
        by blast
      from replaceAllPlain_match [OF assms(2) True, of rep seen]
      have "replaceAllPlain pat rep seen (t @ '')'') =
              (getSubstitution pat seen (r' @ '')'') rep @ r) @ '')''"
        using Cons dropped r by simp
      then show ?thesis by blast
    next
      case False
      have "length cs < length t" using Cons by simp
      from less(1) [OF this, of "seen @ [c]"]
      obtain r where r: "replaceAllPlain pat rep (seen @ [c]) (cs @ '')'') = r @ '')''"
        by blast
      from replaceAllPlain_no_match [OF False, of rep seen]
      have "replaceAllPlain pat rep seen (t @ '')'') = (c # r) @ '')''"
        using Cons r by simp
      then show ?thesis by blast
    qed
  qed
qed

lemma isVarReference_varReference: "isVarReference (varReference n)"
  by (simp add: isVarReference_def varReference_def suffix_def)

lemma isVarReference_shape:
  assumes "isVarReference v"
  shows "\<exists>n. v = ''var(--'' @ n @ '')''"
proof -
  from assms obtain r where r: "v = ''var(--'' @ r"
    by (auto simp: isVarReference_def prefix_def)
  from assms obtain u where u: "v = u @ '')''"
    by (auto simp: isVarReference_def suffix_def)
  from assms r have "r \<noteq> []"
    by (auto simp: isVarReference_def)
  then have "r = butlast r @ [last r]" by simp
  moreover from r u \<open>r \<noteq> []\<close> have "last r = CHR '')''"
    by (metis last_appendR last_snoc)
  ultimately have "r = butlast r @ '')''" by simp
  with r show ?thesis by metis
qed

lemma replaceAllPlain_keeps_reference:
  assumes "isVarReference v" and "CHR '')'' \<notin> set x"
  shows "isVarReference (replaceAllPlain (''--'' @ x) (''--'' @ y) [] v)"
proof -
  from assms(1) obtain n where v: "v = ''var(--'' @ n @ '')''"
    using isVarReference_shape by blast
  let ?pat = "''--'' @ x" and ?rep = "''--'' @ y"
  have head: "replaceAllPlain ?pat ?rep [] v =
                ''var('' @ replaceAllPlain ?pat ?rep ''var('' (''--'' @ n @ '')'')"
    unfolding v by simp
  obtain r1 where r1: "replaceAllPlain ?pat ?rep ''var('' (''--'' @ n @ '')'') = ''--'' @ r1"
    using replaceAllPlain_starts_with_hyphens [of x y "''var(''" "n @ '')''"] by blast
  have "CHR '')'' \<notin> set ?pat" using assms(2) by simp
  then obtain r2 where r2: "replaceAllPlain ?pat ?rep ''var('' ((''--'' @ n) @ '')'') = r2 @ '')''"
    using replaceAllPlain_ends_with_paren [of ?pat ?rep "''var(''" "''--'' @ n"] by blast
  from r1 r2 have eq: "''--'' @ r1 = r2 @ '')''" by simp
  then have "r1 \<noteq> []" by (cases r2) auto
  then have "r1 = butlast r1 @ [last r1]" by simp
  moreover from eq \<open>r1 \<noteq> []\<close> have "last r1 = CHR '')''"
    by (metis last_appendR last_snoc)
  ultimately have "r1 = butlast r1 @ '')''" by simp
  with head r1 have "replaceAllPlain ?pat ?rep [] v = varReference (butlast r1)"
    by (simp add: varReference_def)
  then show ?thesis by (simp add: isVarReference_varReference)
qed

lemma leavesAreReferences_simps [simp]:
  "leavesAreReferences (ObjectExpression props) = list_all leavesAreReferences props"
  "leavesAreReferences (ObjectProperty k v) = leavesAreReferences v"
  "leavesAreReferences (StringLiteral s) = isVarReference s"
  "leavesAreReferences (Identifier n) = True"
  "leavesAreReferences (OtherNode t) = True"
  by (auto simp: leavesAreReferences_def list_all_iff)

lemma findIndex_less: "findIndex P xs = Some i \<Longrightarrow> i < length xs"
  by (induction xs arbitrary: i) (auto split: if_splits)

lemma list_all_splice1: "list_all P xs \<Longrightarrow> list_all P (splice1 i xs)"
  by (auto simp: splice1_def list_all_iff dest: in_set_takeD in_set_dropD)

lemma list_all_update: "list_all P xs \<Longrightarrow> P y \<Longrightarrow> list_all P (xs[i := y])"
  by (auto simp: list_all_iff dest!: subsetD [OF set_update_subset_insert])

lemma list_all_nth: "list_all P xs \<Longrightarrow> i < length xs \<Longrightarrow> P (xs ! i)"
  by (simp add: list_all_length)

lemma addTailwindNestedColor_keeps_references:
  assumes "list_all leavesAreReferences props"
  shows "list_all leavesAreReferences (addTailwindNestedColor e props parentName newName newCssVarName)"
proof (cases "findIndex (isNamedProperty parentName) props")
  case None
  with assms show ?thesis by (simp add: addTailwindNestedColor_def)
next
  case (Some i)
  from assms findIndex_less [OF Some] have "leavesAreReferences (props ! i)"
    by (rule list_all_nth)
  with Some assms show ?thesis
    by (auto simp: addTailwindNestedColor_def isVarReference_varReference
             intro!: list_all_update split: node.splits)
qed

lemma createColorVisitor_keeps_references:
  assumes "leavesAreReferences colorObj"
  shows "leavesAreReferences (createColorVisitor e parentName camelCaseName newCssVarName colorObj)"
  using assms
  by (cases colorObj)
     (auto simp: createColorVisitor_def addTailwindRootColor_def isVarReference_varReference
           addTailwindNestedColor_keeps_references split: option.splits)

lemma deleteColorVisitor_keeps_references:
  assumes "leavesAreReferences colorObj"
  shows "leavesAreReferences (deleteColorVisitor groupName colorName colorObj)"
proof (cases colorObj)
  case (ObjectExpression props)
  show ?thesis
  proof (cases "findIndex (isNamedProperty groupName) props")
    case None
    with assms ObjectExpression show ?thesis by (simp add: deleteColorVisitor_def)
  next
    case (Some i)
    from assms ObjectExpression have all: "list_all leavesAreReferences props" by simp
    from all findIndex_less [OF Some] have "leavesAreReferences (props ! i)"
      by (rule list_all_nth)
    with Some all ObjectExpression show ?thesis
      by (auto simp: deleteColorVisitor_def intro!: list_all_update list_all_splice1
               split: node.splits option.splits)
  qed
qed (use assms in \<open>simp_all add: deleteColorVisitor_def\<close>)

lemma updateNestedProperty_keeps_references:
  "leavesAreReferences nestedProp \<Longrightarrow>
   leavesAreReferences (fst (updateNestedProperty e parentKey keyName newName newCssVarName nestedProp))"
  by (auto simp: updateNestedProperty_def isVarReference_varReference Let_def split: node.splits)

lemma collect_all:
  "collect (map f xs) = Inr ys \<Longrightarrow> \<forall>x \<in> set xs. \<forall>y. f x = Inr y \<longrightarrow> Q y \<Longrightarrow> list_all Q ys"
proof (induction xs arbitrary: ys)
  case Nil
  then show ?case by simp
next
  case (Cons x xs)
  from Cons.prems(1) obtain y ys' where y: "f x = Inr y" and ys': "collect (map f xs) = Inr ys'"
    and ys: "ys = y # ys'"
    by (cases "f x"; cases "collect (map f xs)") auto
  from Cons.prems(2) y have "Q y" by simp
  moreover from Cons.IH [OF ys'] Cons.prems(2) have "list_all Q ys'" by simp
  ultimately show ?case using ys by simp
qed

lemma plain_not_paren: "list_all (\<lambda>c. \<not> isSyntaxCharacter c) n \<Longrightarrow> CHR '')'' \<notin> set n"
  by (auto simp: list_all_iff isSyntaxCharacter_def)

lemma plainPattern_hyphens:
  "list_all (\<lambda>c. \<not> isSyntaxCharacter c) n \<Longrightarrow> plainPattern (''--'' @ n)"
  by (simp add: plainPattern_def isSyntaxCharacter_def)

lemma plain_hyphenated:
  "list_all (\<lambda>c. \<not> isSyntaxCharacter c) a \<Longrightarrow> list_all (\<lambda>c. \<not> isSyntaxCharacter c) b \<Longrightarrow>
   list_all (\<lambda>c. \<not> isSyntaxCharacter c) (a @ ''-'' @ b)"
  by (simp add: isSyntaxCharacter_def)

lemma renameNestedReference_keeps_references:
  assumes "leavesAreReferences nestedProp" and "plainKeys nestedProp"
    and "list_all (\<lambda>c. \<not> isSyntaxCharacter c) parentKey"
    and "renameNestedReference e parentKey newName nestedProp = Inr nestedProp'"
  shows "leavesAreReferences nestedProp'"
proof (cases "\<exists>n v. nestedProp = ObjectProperty (Identifier n) (StringLiteral v)")
  case True
  then obtain n v where np: "nestedProp = ObjectProperty (Identifier n) (StringLiteral v)" by blast
  let ?old = "if n = ''DEFAULT'' then parentKey else parentKey @ ''-'' @ n"
  let ?new = "if n = ''DEFAULT'' then toCamelCase e newName else toCamelCase e newName @ ''-'' @ n"
  from assms(2,3) np have plain: "list_all (\<lambda>c. \<not> isSyntaxCharacter c) ?old"
    by (simp add: isSyntaxCharacter_def)
  then have "RegExp_replace_global e (''--'' @ ?old) (''--'' @ ?new) v =
               Inr (replaceAllPlain (''--'' @ ?old) (''--'' @ ?new) [] v)"
    by (simp only: RegExp_replace_global_def plainPattern_hyphens if_True)
  with assms(4) np have "nestedProp' =
      ObjectProperty (Identifier n) (StringLiteral (replaceAllPlain (''--'' @ ?old) (''--'' @ ?new) [] v))"
    by (simp add: renameNestedReference_def Let_def)
  moreover from assms(1) np have "isVarReference v" by simp
  ultimately show ?thesis
    using replaceAllPlain_keeps_reference [OF _ plain_not_paren [OF plain]] by simp
next
  case False
  with assms(4) have "nestedProp' = nestedProp"
    by (auto simp: renameNestedReference_def split: node.splits)
  with assms(1) show ?thesis by simp
qed

lemma updateColorProp_keeps_references:
  assumes "leavesAreReferences colorProp"
    and "truthyOpt keyName \<or> plainKeys colorProp"
    and "updateColorProp e parentKey keyName newName newCssVarName colorProp = Inr r"
  shows "leavesAreReferences (fst r)"
proof (cases "\<exists>nested. colorProp = ObjectProperty (Identifier parentKey) (ObjectExpression nested)")
  case False
  with assms(3) have "fst r = colorProp"
    by (auto simp: updateColorProp_def split: node.splits if_splits)
  with assms(1) show ?thesis by simp
next
  case True
  then obtain nested where cp: "colorProp = ObjectProperty (Identifier parentKey) (ObjectExpression nested)"
    by blast
  with assms(1) have nested: "list_all leavesAreReferences nested" by simp
  show ?thesis
  proof (cases "truthyOpt keyName")
    case True
    with assms(3) cp have "fst r = ObjectProperty (Identifier parentKey)
        (ObjectExpression
           (map (\<lambda>p. fst (updateNestedProperty e parentKey (interpolate keyName) newName newCssVarName p))
                nested))"
      by (auto simp: updateColorProp_def Let_def comp_def)
    with nested show ?thesis
      by (simp add: list_all_iff updateNestedProperty_keeps_references)
  next
    case False
    show ?thesis
    proof (cases "truthy parentKey \<and> newName \<noteq> parentKey")
      case False
      with \<open>\<not> truthyOpt keyName\<close> assms(3) cp have "fst r = colorProp"
        by (auto simp: updateColorProp_def)
      with assms(1) show ?thesis by simp
    next
      case True
      with \<open>\<not> truthyOpt keyName\<close> assms(3) cp obtain nested' where
        nested': "collect (map (renameNestedReference e parentKey newName) nested) = Inr nested'"
        and r: "fst r = ObjectProperty (Identifier (toCamelCase e newName)) (ObjectExpression nested')"
        by (auto simp: updateColorProp_def split: sum.splits)
      from assms(2) \<open>\<not> truthyOpt keyName\<close> cp
      have plain: "list_all (\<lambda>c. \<not> isSyntaxCharacter c) parentKey" and keys: "list_all plainKeys nested"
        by simp_all
      have "\<forall>x \<in> set nested. \<forall>y. renameNestedReference e parentKey newName x = Inr y
              \<longrightarrow> leavesAreReferences y"
        using nested keys plain
        by (auto simp: list_all_iff intro: renameNestedReference_keeps_references)
      with nested' have "list_all leavesAreReferences nested'"
        by (rule collect_all)
      with r show ?thesis by simp
    qed
  qed
qed

lemma collect_all_fst:
  assumes "collect (map f xs) = Inr ys"
    and "\<forall>x \<in> set xs. \<forall>y. f x = Inr y \<longrightarrow> Q (fst y)"
  shows "list_all Q (map fst ys)"
proof -
  from assms have "list_all (\<lambda>y. Q (fst y)) ys" by (rule collect_all)
  then show ?thesis by (simp add: list_all_iff)
qed

lemma updateColorVisitor_keeps_references:
  assumes "leavesAreReferences colorObj"
    and "truthyOpt keyName \<or> plainKeys colorObj"
    and "updateColorVisitor e parentKey keyName newName newCssVarName colorObj = Inr r"
  shows "leavesAreReferences (fst r)"
proof (cases colorObj)
  case (ObjectExpression props)
  with assms(3) obtain results where
    results: "collect (map (updateColorProp e parentKey keyName newName newCssVarName) props) = Inr results"
    and r: "fst r = ObjectExpression (map fst results)"
    by (auto simp: updateColorVisitor_def split: sum.splits)
  have "\<forall>x \<in> set props. \<forall>y. updateColorProp e parentKey keyName newName newCssVarName x = Inr y
          \<longrightarrow> leavesAreReferences (fst y)"
  proof (intro ballI allI impI)
    fix x y
    assume x: "x \<in> set props"
      and y: "updateColorProp e parentKey keyName newName newCssVarName x = Inr y"
    from x assms(1) ObjectExpression have "leavesAreReferences x"
      by (simp add: list_all_iff)
    moreover from x assms(2) ObjectExpression have "truthyOpt keyName \<or> plainKeys x"
      by (auto simp: list_all_iff)
    ultimately show "leavesAreReferences (fst y)"
      using y by (rule updateColorProp_keeps_references)
  qed
  with results have "list_all leavesAreReferences (map fst results)"
    by (rule collect_all_fst)
  with r show ?thesis by simp
qed (use assms in \<open>auto simp: updateColorVisitor_def\<close>)

lemma updateConfigAst_keeps_references:
  assumes "configLeavesAreReferences ast"
    and "truthyOpt keyName \<or> list_all plainKeys (colorsValues ast)"
    and "updateConfigAst e parentKey keyName newName newCssVarName ast = Inr r"
  shows "configLeavesAreReferences (fst r)"
proof -
  from assms(3) obtain results where
    results: "collect (map (updateColorVisitor e parentKey keyName newName newCssVarName)
                (colorsValues ast)) = Inr results"
    and r: "fst r = ast\<lparr>colorsValues := map fst results\<rparr>"
    by (auto simp: updateConfigAst_def split: sum.splits)
  have "\<forall>x \<in> set (colorsValues ast). \<forall>y.
          updateColorVisitor e parentKey keyName newName newCssVarName x = Inr y
          \<longrightarrow> leavesAreReferences (fst y)"
  proof (intro ballI allI impI)
    fix x y
    assume x: "x \<in> set (colorsValues ast)"
      and y: "updateColorVisitor e parentKey keyName newName newCssVarName x = Inr y"
    from x assms(1) have "leavesAreReferences x"
      by (simp add: configLeavesAreReferences_def list_all_iff)
    moreover from x assms(2) have "truthyOpt keyName \<or> plainKeys x"
      by (auto simp: list_all_iff)
    ultimately show "leavesAreReferences (fst y)"
      using y by (rule updateColorVisitor_keeps_references)
  qed
  with results have "list_all leavesAreReferences (map fst results)"
    by (rule collect_all_fst)
  with r show ?thesis by (simp add: configLeavesAreReferences_def)
qed

text \<open>
  C9, as amended. A mutation writes references only: when every leaf of the colours
  objects is a reference before it, every leaf is one after a create, after a delete, and
  after a rename or recolour that does not throw (for the rename of a root colour, where
  the old references are rewritten by a regular expression built from the keys, the keys
  are taken to hold no syntax character of the pattern language).
\<close>

theorem mutations_keep_references:
  assumes "configLeavesAreReferences ast"
  shows "configLeavesAreReferences
           (traverseColors (createColorVisitor e parentName camelCaseName cssVarName) ast)
       \<and> configLeavesAreReferences (traverseColors (deleteColorVisitor groupName colorName) ast)
       \<and> ((truthyOpt keyName \<or> list_all plainKeys (colorsValues ast)) \<longrightarrow>
            (case updateConfigAst e parentKey keyName newName newCssVarName ast of
               Inl err \<Rightarrow> True
             | Inr r \<Rightarrow> configLeavesAreReferences (fst r)))"
proof -
  have created: "configLeavesAreReferences
           (traverseColors (createColorVisitor e parentName camelCaseName cssVarName) ast)"
    using assms
    by (simp add: configLeavesAreReferences_def traverseColors_def list_all_iff
        createColorVisitor_keeps_references)
  have deleted: "configLeavesAreReferences (traverseColors (deleteColorVisitor groupName colorName) ast)"
    using assms
    by (simp add: configLeavesAreReferences_def traverseColors_def list_all_iff
        deleteColorVisitor_keeps_references)
  have renamed: "(truthyOpt keyName \<or> list_all plainKeys (colorsValues ast)) \<longrightarrow>
            (case updateConfigAst e parentKey keyName newName newCssVarName ast of
               Inl err \<Rightarrow> True
             | Inr r \<Rightarrow> configLeavesAreReferences (fst r))"
  proof (cases "updateConfigAst e parentKey keyName newName newCssVarName ast")
    case (Inl err)
    then show ?thesis by simp
  next
    case (Inr r)
    with assms show ?thesis
      by (auto dest: updateConfigAst_keeps_references [rotated 2])
  qed
  from created deleted renamed show ?thesis by blast
qed

theorem mutations_keep_references_witness:
  "configLeavesAreReferences
     (traverseColors (createColorVisitor (sampleEnv [defaultConfig] []) None ''tint'' ''tint'') defaultConfig)
   \<and> configLeavesAreReferences (traverseColors (deleteColorVisitor ''brand'' (Some ''accent'')) defaultConfig)
   \<and> (case updateConfigAst (sampleEnv [defaultConfig] []) ''brand'' None ''primary'' ''primary'' defaultConfig of
         Inl err \<Rightarrow> True
       | Inr r \<Rightarrow> configLeavesAreReferences (fst r))"
proof -
  have before: "configLeavesAreReferences defaultConfig"
    by (simp add: configLeavesAreReferences_def defaultConfig_def isVarReference_def suffix_def)
  have keys: "list_all plainKeys (colorsValues defaultConfig)"
    by (simp add: defaultConfig_def isSyntaxCharacter_def)
  from mutations_keep_references [OF before, of "sampleEnv [defaultConfig] []" None "''tint''" "''tint''"
      "''brand''" "Some ''accent''" None "''brand''" "''primary''" "''primary''"] keys
  show ?thesis by simp
qed

text \<open>
  C9 as stated fails: the configuration \<open>{white: '#ffffff', brand: {accent: ...}}\<close>
  holds a literal. Deleting \<open>accent\<close> from \<open>brand\<close> succeeds, and the tree written
  still has the leaf \<open>#ffffff\<close>.
\<close>

theorem literal_leaf_survives_delete:
  "deleteColorGroup (sampleEnv [sampleConfig] []) Map.empty sampleDelete ''brand'' (Some ''accent'') =
     Some ([''/app/globals.css'' \<mapsto> Array_join [CHR 0x0A] ['':root {'', ''  --brandy: #111111;'', ''}''],
            ''/app/tailwind.config.ts'' \<mapsto>
              printFile (traverseColors (deleteColorVisitor ''brand'' (Some ''accent'')) sampleConfig)],
           Inr succeeded)
   \<and> concat (map leafValues
         (colorsValues (traverseColors (deleteColorVisitor ''brand'' (Some ''accent'')) sampleConfig))) =
       [''#ffffff'']
   \<and> \<not> configLeavesAreReferences
         (traverseColors (deleteColorVisitor ''brand'' (Some ''accent'')) sampleConfig)"
  by (simp add: deleteColorGroup_def traverseColors_def deleteColorVisitor_def splice1_def
      keepCssLine_def startsWith_def String_trim_def isWhiteSpace_def writeFileSync_def
      configOptions_def configLeavesAreReferences_def isVarReference_def
      sampleEnv_def sampleDelete_def sampleConfig_def sampleColors_def sampleLines_def
      printFile_def truthy_def)

end
